theory Spec2Isabelle
  imports Main "HOL-Library.Word" "HOL-Library.AList" "HOL-Library.Char_ord"
    "HOL-Library.List_Lexorder"
begin

section \<open>Go values\<close>

text \<open>
  The two bindings of the signing bridge are Go packages: package \<open>mobile\<close> (typed
  arguments, called from Swift and Kotlin) and package \<open>main\<close> of the WebAssembly build
  (arguments arrive as JavaScript values). Both targets have 64-bit \<open>int\<close>, so Go's
  \<open>int\<close> and \<open>int64\<close> are 64-bit words read as two's complement, and a conversion such
  as \<open>uint8(x)\<close> keeps the low bits (\<open>ucast\<close>).
\<close>

type_synonym byte = "8 word"
type_synonym int64 = "64 word"

text \<open>
  Modelled from the spec: the functions of package \<open>client\<close> are outside the bindings.
  What a call of one of them can do: return a value with a nil error, return a non-nil
  error, or panic. A call that fails constructs nothing (the spec's engine contract; Go's
  convention for a result of a pointer and an error), so the value beside a non-nil error
  is the zero value, nil for a pointer.
\<close>

datatype 'a reply = Value 'a | Failure string | Fault

subsection \<open>Decimal and hexadecimal text\<close>

fun string_of_nat :: "nat \<Rightarrow> string" where
  "string_of_nat n =
     (if n < 10 then [char_of (48 + n)]
      else string_of_nat (n div 10) @ [char_of (48 + n mod 10)])"

declare string_of_nat.simps [simp del]

definition string_of_int :: "int \<Rightarrow> string" where
  "string_of_int i = (if i < 0 then CHR ''-'' # string_of_nat (nat (- i)) else string_of_nat (nat i))"

text \<open>\<open>encoding/hex\<close>: the value of a hexadecimal digit, either case.\<close>

definition fromHexChar :: "char \<Rightarrow> nat option" where
  "fromHexChar c =
     (let n = of_char c :: nat in
      if 48 \<le> n \<and> n \<le> 57 then Some (n - 48)
      else if 97 \<le> n \<and> n \<le> 102 then Some (n - 97 + 10)
      else if 65 \<le> n \<and> n \<le> 70 then Some (n - 65 + 10)
      else None)"

datatype hex_error = ErrEmptyString | ErrMissingPrefix | ErrOddLength | ErrSyntax

fun hex_DecodeString :: "string \<Rightarrow> hex_error + byte list" where
  "hex_DecodeString [] = Inr []"
| "hex_DecodeString [p] = (case fromHexChar p of None \<Rightarrow> Inl ErrSyntax | Some _ \<Rightarrow> Inl ErrOddLength)"
| "hex_DecodeString (p # q # rest) =
     (case fromHexChar p of
        None \<Rightarrow> Inl ErrSyntax
      | Some a \<Rightarrow>
         (case fromHexChar q of
            None \<Rightarrow> Inl ErrSyntax
          | Some b \<Rightarrow>
             (case hex_DecodeString rest of
                Inl e \<Rightarrow> Inl e
              | Inr bs \<Rightarrow> Inr (word_of_nat (16 * a + b) # bs))))"

definition has0xPrefix :: "string \<Rightarrow> bool" where
  "has0xPrefix input =
     (case input of
        a # b # _ \<Rightarrow> a = CHR ''0'' \<and> (b = CHR ''x'' \<or> b = CHR ''X'')
      | _ \<Rightarrow> False)"

text \<open>\<open>hexutil.Decode\<close> of go-ethereum: the input must be non-empty and carry the 0x prefix.\<close>

definition hexutil_Decode :: "string \<Rightarrow> hex_error + byte list" where
  "hexutil_Decode input =
     (if input = [] then Inl ErrEmptyString
      else if \<not> has0xPrefix input then Inl ErrMissingPrefix
      else hex_DecodeString (drop 2 input))"

definition hex_error_text :: "hex_error \<Rightarrow> string" where
  "hex_error_text e =
     (case e of
        ErrEmptyString \<Rightarrow> ''empty hex string''
      | ErrMissingPrefix \<Rightarrow> ''hex string without 0x prefix''
      | ErrOddLength \<Rightarrow> ''hex string of odd length''
      | ErrSyntax \<Rightarrow> ''invalid hex string'')"

definition hexdigit :: "nat \<Rightarrow> char" where
  "hexdigit n = (if n < 10 then char_of (48 + n) else char_of (87 + n))"

definition hex_of_byte :: "byte \<Rightarrow> string" where
  "hex_of_byte b = [hexdigit (unat b div 16), hexdigit (unat b mod 16)]"

text \<open>\<open>hexutil.Encode\<close>: 0x followed by lower-case digits.\<close>

definition hexutil_Encode :: "byte list \<Rightarrow> string" where
  "hexutil_Encode bs = ''0x'' @ concat (map hex_of_byte bs)"

text \<open>\<open>strings.Replace(s, "0x", "", 1)\<close>: the first occurrence of 0x is removed.\<close>

fun strings_Replace_0x :: "string \<Rightarrow> string" where
  "strings_Replace_0x (a # b # rest) =
     (if a = CHR ''0'' \<and> b = CHR ''x'' then rest else a # strings_Replace_0x (b # rest))"
| "strings_Replace_0x s = s"

subsection \<open>JSON documents\<close>

text \<open>
  A JSON text is represented by the value it encodes; an object keeps its members as a
  list of pairs. Numbers are integers: \<open>encoding/json\<close> decodes a number held in an
  \<open>interface{}\<close> as a float64, and the model covers the numbers a float64 holds exactly.
\<close>

datatype jvalue =
    JNull
  | JBool bool
  | JNumber int
  | JString string
  | JArray "jvalue list"
  | JObject "(string \<times> jvalue) list"

text \<open>
  A Go string that may hold a JSON text: \<open>Json v\<close> is the encoding of \<open>v\<close>, \<open>Plain s\<close> is
  the string \<open>s\<close> taken as it is (the empty string of an error result, an auth token).
\<close>

datatype payload = Plain string | Json jvalue

text \<open>A \<open>map[string]interface{}\<close>: distinct keys; nil is \<open>None\<close>.\<close>

type_synonym gomap = "(string \<times> jvalue) list"

definition map_assign :: "gomap \<Rightarrow> string \<Rightarrow> jvalue \<Rightarrow> gomap" where
  "map_assign m k v = AList.update k v m"

text \<open>Filling a map from the members of an object, a later duplicate replacing an earlier one.\<close>

definition map_of_members :: "(string \<times> jvalue) list \<Rightarrow> gomap" where
  "map_of_members kvs = fold (\<lambda>(k, v) m. map_assign m k v) kvs []"

text \<open>\<open>json.Marshal\<close> of a map writes the members in the order of their keys.\<close>

definition json_Marshal_map :: "gomap \<Rightarrow> jvalue" where
  "json_Marshal_map m = JObject (sort_key fst m)"



text \<open>
  What the syntax pass of \<open>json.Unmarshal\<close> makes of a string: the message of a syntax
  error, or the value the text encodes.
\<close>

datatype json_input = Malformed string | Wellformed jvalue

text \<open>
  \<open>json.Unmarshal\<close> reports a JSON value of the wrong kind by the name of its kind and
  the Go type it was to fill.
\<close>

definition json_kind :: "jvalue \<Rightarrow> string" where
  "json_kind v =
     (case v of
        JNull \<Rightarrow> ''null''
      | JBool _ \<Rightarrow> ''bool''
      | JNumber _ \<Rightarrow> ''number''
      | JString _ \<Rightarrow> ''string''
      | JArray _ \<Rightarrow> ''array''
      | JObject _ \<Rightarrow> ''object'')"

definition UnmarshalTypeError :: "jvalue \<Rightarrow> string \<Rightarrow> string" where
  "UnmarshalTypeError v ty = ''json: cannot unmarshal '' @ json_kind v @ '' into Go value of type '' @ ty"

section \<open>The signing engine and the registry\<close>

text \<open>
  Modelled from the spec: package \<open>client\<close> and package \<open>types\<close> (the signing engine)
  are not part of the bindings; the model takes the engine as a parameter and proves its
  theorems for every engine. A \<open>TxClient\<close> is the spec's session: account index, slot,
  chain id, endpoint and key, fixed when it is constructed. It is reached through a
  pointer: \<open>addr\<close> is the address of the object, different for every object the engine
  constructs, so two pointers are equal exactly when the records are. The accessors
  \<open>GetApiKeyIndex\<close>, \<open>GetAccountIndex\<close> and \<open>GetKeyManager().PubKeyBytes()\<close> read the
  fields below.
\<close>

record TxClient =
  addr :: nat
  endpoint :: string
  accountIndex :: int64
  apiKeyIndex :: byte
  chainId :: "32 word"
  PubKeyBytes :: "byte list"

record CreateOrderTxReq =
  MarketIndex :: byte
  ClientOrderIndex :: int64
  BaseAmount :: int64
  Price :: "32 word"
  IsAsk :: byte
  Type :: byte
  TimeInForce :: byte
  ReduceOnly :: byte
  TriggerPrice :: "32 word"
  OrderExpiry :: int64

text \<open>
  The request types of package \<open>types\<close>, one constructor per transaction kind, the
  fields in the order of the source's struct literals:
  \<open>ChangePubKeyReq PubKey\<close>, \<open>CreateGroupedOrdersTxReq GroupingType Orders\<close>,
  \<open>CancelOrderTxReq MarketIndex Index\<close>, \<open>WithdrawTxReq USDCAmount\<close>,
  \<open>CancelAllOrdersTxReq TimeInForce Time\<close>,
  \<open>ModifyOrderTxReq MarketIndex Index BaseAmount Price TriggerPrice\<close>,
  \<open>TransferTxReq ToAccountIndex USDCAmount Fee Memo\<close>,
  \<open>CreatePublicPoolTxReq OperatorFee InitialTotalShares MinOperatorShareRate\<close>,
  \<open>UpdatePublicPoolTxReq PublicPoolIndex Status OperatorFee MinOperatorShareRate\<close>,
  \<open>MintSharesTxReq\<close> and \<open>BurnSharesTxReq PublicPoolIndex ShareAmount\<close>,
  \<open>UpdateLeverageTxReq MarketIndex InitialMarginFraction MarginMode\<close>,
  \<open>UpdateMarginTxReq MarketIndex USDCAmount Direction\<close>. \<open>CreateSubAccountReq\<close> stands
  for \<open>GetCreateSubAccountTransaction\<close>, which takes the options only.
\<close>

datatype tx_request =
    ChangePubKeyReq "byte list"
  | CreateOrderReq CreateOrderTxReq
  | CreateGroupedOrdersTxReq byte "CreateOrderTxReq list"
  | CancelOrderTxReq byte int64
  | WithdrawTxReq int64
  | CreateSubAccountReq
  | CancelAllOrdersTxReq byte int64
  | ModifyOrderTxReq byte int64 int64 "32 word" "32 word"
  | TransferTxReq int64 int64 int64 "byte list"
  | CreatePublicPoolTxReq int64 int64 int64
  | UpdatePublicPoolTxReq int64 byte int64 int64
  | MintSharesTxReq int64 int64
  | BurnSharesTxReq int64 int64
  | UpdateLeverageTxReq byte "16 word" byte
  | UpdateMarginTxReq byte int64 byte

text \<open>\<open>types.TransactOpts\<close>: \<open>Nonce\<close> is a pointer, nil when the engine is to pick the nonce.\<close>

record TransactOpts =
  Nonce :: "int64 option"

text \<open>
  Modelled from the spec: the transaction object the engine returns, with its
  serializable form (what \<open>json.Marshal\<close> makes of it: an error text or the document) and
  its raw message body (what \<open>GetL1SignatureBody\<close> returns).
\<close>

record Tx =
  tx_json :: "string + jvalue"
  L1SignatureBody :: string

text \<open>
  Modelled from the spec: the answer of the remote lookup, a list of the keys registered
  for the account and slot, each with its public key as a text.
\<close>

record ApiKey =
  AccountIndex :: int64
  ApiKeyIndex :: byte
  KeyNonce :: int64
  PublicKey :: string

record AccountApiKeys =
  ApiKeys :: "ApiKey list"

text \<open>Every call that leaves the binding, with its arguments.\<close>

datatype engine_call =
    CallSampleScalar "string option"
  | CallNewTxClient string string int64 byte "32 word"
  | CallGetApiKey TxClient int64 byte
  | CallGetTransaction TxClient tx_request TransactOpts
  | CallGetAuthToken TxClient int64

text \<open>
  The engine answers a call knowing the calls made before it (it keeps nonces and talks to
  the network). \<open>SampleScalar\<close> returns the private and the public key bytes and has no
  error result; \<open>NewTxClient\<close> returns the public key it derived; \<open>GetAuthToken\<close> takes
  the deadline in seconds since the epoch (\<open>time.Unix(deadline, 0)\<close>). The syntax pass
  of \<open>encoding/json\<close> is taken as given in the same way (\<open>json_syntax\<close>).
\<close>

record engine =
  json_syntax :: "string \<Rightarrow> json_input"
  SampleScalar :: "engine_call list \<Rightarrow> string option \<Rightarrow> (byte list \<times> byte list) option"
  NewTxClient :: "engine_call list \<Rightarrow> string \<Rightarrow> string \<Rightarrow> int64 \<Rightarrow> byte \<Rightarrow> 32 word \<Rightarrow> byte list reply"
  GetApiKey :: "engine_call list \<Rightarrow> TxClient \<Rightarrow> int64 \<Rightarrow> byte \<Rightarrow> AccountApiKeys reply"
  GetTransaction :: "engine_call list \<Rightarrow> TxClient \<Rightarrow> tx_request \<Rightarrow> TransactOpts \<Rightarrow> Tx reply"
  GetAuthToken :: "engine_call list \<Rightarrow> TxClient \<Rightarrow> int64 \<Rightarrow> string reply"

text \<open>
  The package variables \<open>txClient\<close> and \<open>backupTxClients\<close> (a nil map is \<open>None\<close>), the
  number of clients constructed so far, and the calls made into the engine so far. The
  key of the map is \<open>int\<close> in package \<open>mobile\<close> and \<open>uint8\<close> in the WebAssembly build.
\<close>

record 'k world =
  txClient :: "TxClient option"
  backupTxClients :: "('k \<rightharpoonup> TxClient) option"
  allocated :: nat
  calls :: "engine_call list"

definition start :: "'k world" where
  "start = \<lparr>txClient = None, backupTxClients = None, allocated = 0, calls = []\<rparr>"

text \<open>Reading \<open>m[k]\<close>: a nil map has no entries.\<close>

definition map_index :: "('k \<rightharpoonup> 'v) option \<Rightarrow> 'k \<Rightarrow> 'v option" where
  "map_index m k = (case m of None \<Rightarrow> None | Some f \<Rightarrow> f k)"

definition called :: "'k world \<Rightarrow> engine_call \<Rightarrow> 'k world" where
  "called w c = w\<lparr>calls := calls w @ [c]\<rparr>"

record APIKeyResult =
  PrivateKey :: string
  PublicKeyHex :: string
  KeyError :: string

record TxResult =
  JSON :: payload
  Error :: string

definition failed :: "string \<Rightarrow> TxResult" where
  "failed msg = \<lparr>JSON = Plain '''', Error = msg\<rparr>"

section \<open>Package mobile\<close>

text \<open>
  Every exported function starts with \<open>defer func() { if r := recover(); r != nil { } }()\<close>
  and has unnamed results: a panic anywhere below stops the function, the deferred call
  swallows it, and the caller receives the zero value of the result type, the empty
  string for \<open>string\<close> and nil (\<open>None\<close>) for \<open>*TxResult\<close> and \<open>*APIKeyResult\<close>. Writes to
  the package variables made before the panic stay.
\<close>

definition GenerateAPIKey :: "engine \<Rightarrow> 'k world \<Rightarrow> string \<Rightarrow> APIKeyResult option \<times> 'k world" where
  "GenerateAPIKey E w seed =
     (let seedP = (if seed = '''' then None else Some seed) in
      (case SampleScalar E (calls w) seedP of
         None \<Rightarrow> None
       | Some (sk, pk) \<Rightarrow>
           Some \<lparr>PrivateKey = hexutil_Encode sk, PublicKeyHex = hexutil_Encode pk, KeyError = ''''\<rparr>,
       called w (CallSampleScalar seedP)))"

definition CreateClient ::
  "engine \<Rightarrow> int64 world \<Rightarrow> string \<Rightarrow> string \<Rightarrow> int64 \<Rightarrow> int64 \<Rightarrow> int64 \<Rightarrow> string \<times> int64 world" where
  "CreateClient E w url privateKey chainId' apiKeyIndex' accountIndex' =
     (if sint accountIndex' \<le> 0 then (''invalid account index'', w)
      else
        let w1 = called w (CallNewTxClient url privateKey accountIndex' (ucast apiKeyIndex') (ucast chainId')) in
        (case NewTxClient E (calls w) url privateKey accountIndex' (ucast apiKeyIndex') (ucast chainId') of
           Fault \<Rightarrow> ('''', w1)
         | Failure err \<Rightarrow>
             (''error occurred when creating TxClient. err: '' @ err, w1\<lparr>txClient := None\<rparr>)
         | Value pk \<Rightarrow>
             let c = \<lparr>addr = allocated w, endpoint = url, accountIndex = accountIndex',
                      apiKeyIndex = ucast apiKeyIndex', chainId = ucast chainId', PubKeyBytes = pk\<rparr>;
                 m = (case backupTxClients w of None \<Rightarrow> Map.empty | Some f \<Rightarrow> f)
             in ('''', w1\<lparr>txClient := Some c, backupTxClients := Some (m(apiKeyIndex' \<mapsto> c)),
                          allocated := Suc (allocated w)\<rparr>)))"

text \<open>\<open>%+v\<close> of the first key of the lookup's answer: the fields by name.\<close>

definition show_ApiKey :: "ApiKey \<Rightarrow> string" where
  "show_ApiKey ak =
     ''{AccountIndex:'' @ string_of_int (sint (AccountIndex ak))
     @ '' ApiKeyIndex:'' @ string_of_nat (unat (ApiKeyIndex ak))
     @ '' Nonce:'' @ string_of_int (sint (KeyNonce ak))
     @ '' PublicKey:'' @ PublicKey ak @ ''}''"

definition CheckClient :: "engine \<Rightarrow> int64 world \<Rightarrow> int64 \<Rightarrow> int64 \<Rightarrow> string \<times> int64 world" where
  "CheckClient E w apiKeyIndex' accountIndex' =
     (case map_index (backupTxClients w) apiKeyIndex' of
        None \<Rightarrow> (''api key not registered'', w)
      | Some client \<Rightarrow>
          if apiKeyIndex client \<noteq> ucast apiKeyIndex' then
            (''apiKeyIndex does not match. expected '' @ string_of_nat (unat (apiKeyIndex client))
               @ '' but got '' @ string_of_int (sint apiKeyIndex'), w)
          else if accountIndex client \<noteq> accountIndex' then
            (''accountIndex does not match. expected '' @ string_of_int (sint (accountIndex client))
               @ '' but got '' @ string_of_int (sint accountIndex'), w)
          else
            let w1 = called w (CallGetApiKey client accountIndex' (ucast apiKeyIndex')) in
            (case GetApiKey E (calls w) client accountIndex' (ucast apiKeyIndex') of
               Fault \<Rightarrow> ('''', w1)
             | Failure err \<Rightarrow> (''failed to get Api Keys. err: '' @ err, w1)
             | Value key \<Rightarrow>
                 let pubKeyStr = strings_Replace_0x (hexutil_Encode (PubKeyBytes client)) in
                 (case ApiKeys key of
                    [] \<Rightarrow> ('''', w1)
                  | ak # _ \<Rightarrow>
                      if PublicKey ak \<noteq> pubKeyStr then
                        (''private key does not match the one on Lighter. ownPubKey: '' @ pubKeyStr
                           @ '' response: '' @ show_ApiKey ak, w1)
                      else ('''', w1))))"

definition SwitchAPIKey :: "int64 world \<Rightarrow> int64 \<Rightarrow> string \<times> int64 world" where
  "SwitchAPIKey w apiKeyIndex' =
     (let w1 = w\<lparr>txClient := map_index (backupTxClients w) apiKeyIndex'\<rparr> in
      if txClient w1 = None then (''no client initialized for api key'', w1) else ('''', w1))"

subsection \<open>Shared steps of the Sign functions\<close>

text \<open>
  \<open>ops := new(types.TransactOpts); if nonce != -1 { ops.Nonce = &nonce }\<close>, which every
  Sign function repeats.
\<close>

definition new_TransactOpts :: "int64 \<Rightarrow> TransactOpts" where
  "new_TransactOpts nonce = \<lparr>Nonce = (if nonce \<noteq> - 1 then Some nonce else None)\<rparr>"

text \<open>The call \<open>txClient.Get...Transaction(txInfo, ops)\<close>: the engine's answer, and the call recorded.\<close>

definition transaction ::
  "engine \<Rightarrow> 'k world \<Rightarrow> TxClient \<Rightarrow> tx_request \<Rightarrow> TransactOpts \<Rightarrow> Tx reply \<times> 'k world" where
  "transaction E w c txInfo ops =
     (GetTransaction E (calls w) c txInfo ops, called w (CallGetTransaction c txInfo ops))"

text \<open>
  The end of a Sign function without a message to sign: the engine's error, or
  \<open>json.Marshal(tx)\<close> and its error, or the document.
\<close>

definition marshalled :: "Tx reply \<Rightarrow> TxResult option" where
  "marshalled r =
     (case r of
        Fault \<Rightarrow> None
      | Failure err \<Rightarrow> Some (failed err)
      | Value tx \<Rightarrow>
          (case tx_json tx of
             Inl err \<Rightarrow> Some (failed err)
           | Inr txInfoBytes \<Rightarrow> Some \<lparr>JSON = Json txInfoBytes, Error = ''''\<rparr>))"

text \<open>
  The end of \<open>SignChangePubKey\<close> and \<open>SignTransfer\<close>: the document is decoded into a
  \<open>map[string]interface{}\<close>, the key \<open>MessageToSign\<close> is assigned and the map is encoded
  again. Decoding \<open>null\<close> leaves the map nil, and the assignment then panics; a document
  that is no object is a decoding error.
\<close>

definition marshalled_with_message :: "Tx reply \<Rightarrow> TxResult option" where
  "marshalled_with_message r =
     (case r of
        Fault \<Rightarrow> None
      | Failure err \<Rightarrow> Some (failed err)
      | Value tx \<Rightarrow>
          (case tx_json tx of
             Inl err \<Rightarrow> Some (failed err)
           | Inr txInfoBytes \<Rightarrow>
               (case txInfoBytes of
                  JObject members \<Rightarrow>
                    let obj = map_assign (map_of_members members) ''MessageToSign''
                                (JString (L1SignatureBody tx))
                    in Some \<lparr>JSON = Json (json_Marshal_map obj), Error = ''''\<rparr>
                | JNull \<Rightarrow> None
                | _ \<Rightarrow> Some (failed (UnmarshalTypeError txInfoBytes ''map[string]interface {}'')))))"

definition no_client :: string where
  "no_client = ''client is not created, call CreateClient() first''"

text \<open>\<open>time.Now()\<close> is the argument \<open>now\<close>, in nanoseconds since the epoch.\<close>

definition UnixMilli :: "int \<Rightarrow> int64" where
  "UnixMilli t = word_of_int (t div 1000000)"

definition Unix :: "int \<Rightarrow> int64" where
  "Unix t = word_of_int (t div 1000000000)"

definition Hour :: int where
  "Hour = 3600 * 1000000000"

subsection \<open>The Sign functions\<close>

definition SignChangePubKey ::
  "engine \<Rightarrow> 'k world \<Rightarrow> string \<Rightarrow> int64 \<Rightarrow> TxResult option \<times> 'k world" where
  "SignChangePubKey E w pubKey nonce =
     (case txClient w of
        None \<Rightarrow> (Some (failed no_client), w)
      | Some c \<Rightarrow>
          (case hexutil_Decode pubKey of
             Inl err \<Rightarrow> (Some (failed (hex_error_text err)), w)
           | Inr pubKeyBytes \<Rightarrow>
               if length pubKeyBytes \<noteq> 40 then
                 (Some (failed (''invalid pub key length. expected 40 but got ''
                                  @ string_of_nat (length pubKeyBytes))), w)
               else
                 (case transaction E w c (ChangePubKeyReq pubKeyBytes) (new_TransactOpts nonce) of
                    (r, w') \<Rightarrow> (marshalled_with_message r, w'))))"

definition SignCreateOrder ::
  "engine \<Rightarrow> int \<Rightarrow> 'k world \<Rightarrow> int64 \<Rightarrow> int64 \<Rightarrow> int64 \<Rightarrow> int64 \<Rightarrow> int64 \<Rightarrow> int64 \<Rightarrow> int64 \<Rightarrow> int64
     \<Rightarrow> int64 \<Rightarrow> int64 \<Rightarrow> int64 \<Rightarrow> TxResult option \<times> 'k world" where
  "SignCreateOrder E now w marketIndex clientOrderIndex baseAmount price isAsk orderType
       timeInForce reduceOnly triggerPrice orderExpiry nonce =
     (case txClient w of
        None \<Rightarrow> (Some (failed no_client), w)
      | Some c \<Rightarrow>
          let orderExpiry' = (if orderExpiry = - 1 then UnixMilli (now + Hour * 24 * 28) else orderExpiry);
              txInfo = \<lparr>MarketIndex = ucast marketIndex, ClientOrderIndex = clientOrderIndex,
                        BaseAmount = baseAmount, Price = ucast price, IsAsk = ucast isAsk,
                        Type = ucast orderType, TimeInForce = ucast timeInForce,
                        ReduceOnly = ucast reduceOnly, TriggerPrice = ucast triggerPrice,
                        OrderExpiry = orderExpiry'\<rparr>
          in (case transaction E w c (CreateOrderReq txInfo) (new_TransactOpts nonce) of
                (r, w') \<Rightarrow> (marshalled r, w')))"

text \<open>
  \<open>SignCreateGroupedOrders\<close> receives the orders as a JSON text. Decoding into
  \<open>[]map[string]interface{}\<close> accepts \<open>null\<close> (no orders) and an array whose elements
  are objects or \<open>null\<close> (a nil map).
\<close>

fun order_maps :: "jvalue list \<Rightarrow> string + gomap option list" where
  "order_maps [] = Inr []"
| "order_maps (v # vs) =
     (case v of
        JObject members \<Rightarrow>
          (case order_maps vs of Inl e \<Rightarrow> Inl e | Inr ms \<Rightarrow> Inr (Some (map_of_members members) # ms))
      | JNull \<Rightarrow> (case order_maps vs of Inl e \<Rightarrow> Inl e | Inr ms \<Rightarrow> Inr (None # ms))
      | _ \<Rightarrow> Inl (UnmarshalTypeError v ''map[string]interface {}''))"

definition Unmarshal_orders :: "json_input \<Rightarrow> string + gomap option list" where
  "Unmarshal_orders scanned =
     (case scanned of
        Malformed err \<Rightarrow> Inl err
      | Wellformed v \<Rightarrow>
          (case v of
             JNull \<Rightarrow> Inr []
           | JArray vs \<Rightarrow> order_maps vs
           | _ \<Rightarrow> Inl (UnmarshalTypeError v ''[]map[string]interface {}'')))"

text \<open>\<open>orderData[key].(float64)\<close>: the number under the key, if there is one.\<close>

definition float64_at :: "gomap option \<Rightarrow> string \<Rightarrow> int option" where
  "float64_at orderData k =
     (case orderData of
        None \<Rightarrow> None
      | Some m \<Rightarrow> (case map_of m k of Some (JNumber n) \<Rightarrow> Some n | _ \<Rightarrow> None))"

definition required :: "nat \<Rightarrow> string \<Rightarrow> string" where
  "required i name = ''order '' @ string_of_nat i @ '': '' @ name @ '' is required''"

text \<open>
  One round of the loop over \<open>ordersData\<close>. A number within the range of the target type
  converts to itself; outside it Go leaves the result to the implementation, and the
  model keeps the low bits.
\<close>

definition order_of :: "int \<Rightarrow> nat \<Rightarrow> gomap option \<Rightarrow> string + CreateOrderTxReq" where
  "order_of now i orderData =
     (case float64_at orderData ''marketIndex'' of
        None \<Rightarrow> Inl (required i ''marketIndex'')
      | Some marketIndex \<Rightarrow>
     (case float64_at orderData ''clientOrderIndex'' of
        None \<Rightarrow> Inl (required i ''clientOrderIndex'')
      | Some clientOrderIndex \<Rightarrow>
     (case float64_at orderData ''baseAmount'' of
        None \<Rightarrow> Inl (required i ''baseAmount'')
      | Some baseAmount \<Rightarrow>
     (case float64_at orderData ''price'' of
        None \<Rightarrow> Inl (required i ''price'')
      | Some price \<Rightarrow>
     (case float64_at orderData ''isAsk'' of
        None \<Rightarrow> Inl (required i ''isAsk'')
      | Some isAsk \<Rightarrow>
     (case float64_at orderData ''type'' of
        None \<Rightarrow> Inl (required i ''type'')
      | Some orderType \<Rightarrow>
     (case float64_at orderData ''timeInForce'' of
        None \<Rightarrow> Inl (required i ''timeInForce'')
      | Some timeInForce \<Rightarrow>
          let reduceOnly = (case float64_at orderData ''reduceOnly'' of Some ro \<Rightarrow> word_of_int ro | None \<Rightarrow> 0);
              triggerPrice = (case float64_at orderData ''triggerPrice'' of Some tp \<Rightarrow> word_of_int tp | None \<Rightarrow> 0);
              orderExpiry = (case float64_at orderData ''orderExpiry'' of Some oe \<Rightarrow> word_of_int oe | None \<Rightarrow> - 1);
              orderExpiry' = (if orderExpiry = - 1 then UnixMilli (now + Hour * 24 * 28) else orderExpiry)
          in Inr \<lparr>MarketIndex = word_of_int marketIndex, ClientOrderIndex = word_of_int clientOrderIndex,
                   BaseAmount = word_of_int baseAmount, Price = word_of_int price,
                   IsAsk = word_of_int isAsk, Type = word_of_int orderType,
                   TimeInForce = word_of_int timeInForce, ReduceOnly = reduceOnly,
                   TriggerPrice = triggerPrice, OrderExpiry = orderExpiry'\<rparr>)))))))"

fun orders_of :: "int \<Rightarrow> nat \<Rightarrow> gomap option list \<Rightarrow> string + CreateOrderTxReq list" where
  "orders_of now i [] = Inr []"
| "orders_of now i (orderData # rest) =
     (case order_of now i orderData of
        Inl e \<Rightarrow> Inl e
      | Inr order \<Rightarrow>
          (case orders_of now (Suc i) rest of Inl e \<Rightarrow> Inl e | Inr orders \<Rightarrow> Inr (order # orders)))"

definition SignCreateGroupedOrders ::
  "engine \<Rightarrow> int \<Rightarrow> 'k world \<Rightarrow> int64 \<Rightarrow> string \<Rightarrow> int64 \<Rightarrow> TxResult option \<times> 'k world" where
  "SignCreateGroupedOrders E now w groupingType ordersJSON nonce =
     (case txClient w of
        None \<Rightarrow> (Some (failed no_client), w)
      | Some c \<Rightarrow>
          (case Unmarshal_orders (json_syntax E ordersJSON) of
             Inl err \<Rightarrow> (Some (failed (''failed to parse orders JSON: '' @ err)), w)
           | Inr ordersData \<Rightarrow>
               (case orders_of now 0 ordersData of
                  Inl err \<Rightarrow> (Some (failed err), w)
                | Inr orders \<Rightarrow>
                    (case transaction E w c (CreateGroupedOrdersTxReq (ucast groupingType) orders)
                            (new_TransactOpts nonce) of
                       (r, w') \<Rightarrow> (marshalled r, w')))))"

definition SignCancelOrder ::
  "engine \<Rightarrow> 'k world \<Rightarrow> int64 \<Rightarrow> int64 \<Rightarrow> int64 \<Rightarrow> TxResult option \<times> 'k world" where
  "SignCancelOrder E w marketIndex orderIndex nonce =
     (case txClient w of
        None \<Rightarrow> (Some (failed no_client), w)
      | Some c \<Rightarrow>
          (case transaction E w c (CancelOrderTxReq (ucast marketIndex) orderIndex) (new_TransactOpts nonce) of
             (r, w') \<Rightarrow> (marshalled r, w')))"

definition SignWithdraw :: "engine \<Rightarrow> 'k world \<Rightarrow> int64 \<Rightarrow> int64 \<Rightarrow> TxResult option \<times> 'k world" where
  "SignWithdraw E w usdcAmount nonce =
     (case txClient w of
        None \<Rightarrow> (Some (failed no_client), w)
      | Some c \<Rightarrow>
          (case transaction E w c (WithdrawTxReq usdcAmount) (new_TransactOpts nonce) of
             (r, w') \<Rightarrow> (marshalled r, w')))"

definition SignCreateSubAccount :: "engine \<Rightarrow> 'k world \<Rightarrow> int64 \<Rightarrow> TxResult option \<times> 'k world" where
  "SignCreateSubAccount E w nonce =
     (case txClient w of
        None \<Rightarrow> (Some (failed no_client), w)
      | Some c \<Rightarrow>
          (case transaction E w c CreateSubAccountReq (new_TransactOpts nonce) of
             (r, w') \<Rightarrow> (marshalled r, w')))"

definition SignCancelAllOrders ::
  "engine \<Rightarrow> 'k world \<Rightarrow> int64 \<Rightarrow> int64 \<Rightarrow> int64 \<Rightarrow> TxResult option \<times> 'k world" where
  "SignCancelAllOrders E w timeInForce time nonce =
     (case txClient w of
        None \<Rightarrow> (Some (failed no_client), w)
      | Some c \<Rightarrow>
          (case transaction E w c (CancelAllOrdersTxReq (ucast timeInForce) time) (new_TransactOpts nonce) of
             (r, w') \<Rightarrow> (marshalled r, w')))"

definition SignModifyOrder ::
  "engine \<Rightarrow> 'k world \<Rightarrow> int64 \<Rightarrow> int64 \<Rightarrow> int64 \<Rightarrow> int64 \<Rightarrow> int64 \<Rightarrow> int64 \<Rightarrow> TxResult option \<times> 'k world" where
  "SignModifyOrder E w marketIndex index baseAmount price triggerPrice nonce =
     (case txClient w of
        None \<Rightarrow> (Some (failed no_client), w)
      | Some c \<Rightarrow>
          (case transaction E w c
                  (ModifyOrderTxReq (ucast marketIndex) index baseAmount (ucast price) (ucast triggerPrice))
                  (new_TransactOpts nonce) of
             (r, w') \<Rightarrow> (marshalled r, w')))"

text \<open>
  \<open>SignTransfer\<close>: \<open>len(memo)\<close> counts the bytes of the string, and the 32 bytes are
  copied into the request.
\<close>

definition SignTransfer ::
  "engine \<Rightarrow> 'k world \<Rightarrow> int64 \<Rightarrow> int64 \<Rightarrow> int64 \<Rightarrow> string \<Rightarrow> int64 \<Rightarrow> TxResult option \<times> 'k world" where
  "SignTransfer E w toAccountIndex usdcAmount fee memo nonce =
     (case txClient w of
        None \<Rightarrow> (Some (failed no_client), w)
      | Some c \<Rightarrow>
          if length memo \<noteq> 32 then (Some (failed ''memo expected to be 32 bytes long''), w)
          else
            let memoArray = map (\<lambda>ch. of_char ch :: byte) memo in
            (case transaction E w c (TransferTxReq toAccountIndex usdcAmount fee memoArray)
                    (new_TransactOpts nonce) of
               (r, w') \<Rightarrow> (marshalled_with_message r, w')))"

definition SignCreatePublicPool ::
  "engine \<Rightarrow> 'k world \<Rightarrow> int64 \<Rightarrow> int64 \<Rightarrow> int64 \<Rightarrow> int64 \<Rightarrow> TxResult option \<times> 'k world" where
  "SignCreatePublicPool E w operatorFee initialTotalShares minOperatorShareRate nonce =
     (case txClient w of
        None \<Rightarrow> (Some (failed no_client), w)
      | Some c \<Rightarrow>
          (case transaction E w c
                  (CreatePublicPoolTxReq operatorFee initialTotalShares minOperatorShareRate)
                  (new_TransactOpts nonce) of
             (r, w') \<Rightarrow> (marshalled r, w')))"

definition SignUpdatePublicPool ::
  "engine \<Rightarrow> 'k world \<Rightarrow> int64 \<Rightarrow> int64 \<Rightarrow> int64 \<Rightarrow> int64 \<Rightarrow> int64 \<Rightarrow> TxResult option \<times> 'k world" where
  "SignUpdatePublicPool E w publicPoolIndex status operatorFee minOperatorShareRate nonce =
     (case txClient w of
        None \<Rightarrow> (Some (failed no_client), w)
      | Some c \<Rightarrow>
          (case transaction E w c
                  (UpdatePublicPoolTxReq publicPoolIndex (ucast status) operatorFee minOperatorShareRate)
                  (new_TransactOpts nonce) of
             (r, w') \<Rightarrow> (marshalled r, w')))"

definition SignMintShares ::
  "engine \<Rightarrow> 'k world \<Rightarrow> int64 \<Rightarrow> int64 \<Rightarrow> int64 \<Rightarrow> TxResult option \<times> 'k world" where
  "SignMintShares E w publicPoolIndex shareAmount nonce =
     (case txClient w of
        None \<Rightarrow> (Some (failed no_client), w)
      | Some c \<Rightarrow>
          (case transaction E w c (MintSharesTxReq publicPoolIndex shareAmount) (new_TransactOpts nonce) of
             (r, w') \<Rightarrow> (marshalled r, w')))"

definition SignBurnShares ::
  "engine \<Rightarrow> 'k world \<Rightarrow> int64 \<Rightarrow> int64 \<Rightarrow> int64 \<Rightarrow> TxResult option \<times> 'k world" where
  "SignBurnShares E w publicPoolIndex shareAmount nonce =
     (case txClient w of
        None \<Rightarrow> (Some (failed no_client), w)
      | Some c \<Rightarrow>
          (case transaction E w c (BurnSharesTxReq publicPoolIndex shareAmount) (new_TransactOpts nonce) of
             (r, w') \<Rightarrow> (marshalled r, w')))"

definition SignUpdateLeverage ::
  "engine \<Rightarrow> 'k world \<Rightarrow> int64 \<Rightarrow> int64 \<Rightarrow> int64 \<Rightarrow> int64 \<Rightarrow> TxResult option \<times> 'k world" where
  "SignUpdateLeverage E w marketIndex initialMarginFraction marginMode nonce =
     (case txClient w of
        None \<Rightarrow> (Some (failed no_client), w)
      | Some c \<Rightarrow>
          (case transaction E w c
                  (UpdateLeverageTxReq (ucast marketIndex) (ucast initialMarginFraction) (ucast marginMode))
                  (new_TransactOpts nonce) of
             (r, w') \<Rightarrow> (marshalled r, w')))"

definition SignUpdateMargin ::
  "engine \<Rightarrow> 'k world \<Rightarrow> int64 \<Rightarrow> int64 \<Rightarrow> int64 \<Rightarrow> int64 \<Rightarrow> TxResult option \<times> 'k world" where
  "SignUpdateMargin E w marketIndex usdcAmount direction nonce =
     (case txClient w of
        None \<Rightarrow> (Some (failed ''Client is not created, call CreateClient() first''), w)
      | Some c \<Rightarrow>
          (case transaction E w c (UpdateMarginTxReq (ucast marketIndex) usdcAmount (ucast direction))
                  (new_TransactOpts nonce) of
             (r, w') \<Rightarrow> (marshalled r, w')))"

definition CreateAuthToken :: "engine \<Rightarrow> int \<Rightarrow> 'k world \<Rightarrow> int64 \<Rightarrow> TxResult option \<times> 'k world" where
  "CreateAuthToken E now w deadline =
     (case txClient w of
        None \<Rightarrow> (Some (failed no_client), w)
      | Some c \<Rightarrow>
          let deadline' = (if deadline = 0 then Unix (now + Hour * 7) else deadline);
              w' = called w (CallGetAuthToken c deadline')
          in (case GetAuthToken E (calls w) c deadline' of
                Fault \<Rightarrow> (None, w')
              | Failure err \<Rightarrow> (Some (failed err), w')
              | Value authToken \<Rightarrow> (Some \<lparr>JSON = Plain authToken, Error = ''''\<rparr>, w')))"

section \<open>Package main of the WebAssembly build\<close>

text \<open>
  The functions registered with \<open>js.Global().Set\<close> receive their arguments as
  \<open>[]js.Value\<close>. \<open>Value.Int()\<close> panics unless the value is a number;
  \<open>Value.String()\<close> returns the string of a string value and a placeholder such as
  \<open><undefined>\<close> for any other value. Each function defers a \<open>recover\<close> that prints the
  panic; its result type is \<open>interface{}\<close>, so after a panic the caller receives nil
  (\<open>None\<close>). Otherwise the result is an object with the key \<open>err\<close> (nil on success) and,
  for the Sign functions, the key \<open>str\<close>.
\<close>

datatype js_value = JSNumber int | JSString string | JSOther string

definition js_Int :: "js_value \<Rightarrow> int64 option" where
  "js_Int v = (case v of JSNumber n \<Rightarrow> Some (word_of_int n) | _ \<Rightarrow> None)"

definition js_String :: "js_value \<Rightarrow> string" where
  "js_String v =
     (case v of
        JSString s \<Rightarrow> s
      | JSNumber n \<Rightarrow> ''<number: '' @ string_of_int n @ ''>''
      | JSOther placeholder \<Rightarrow> placeholder)"

record js_result =
  str :: "payload option"
  err :: "string option"

record js_key_result =
  privateKey :: string
  publicKey :: string
  key_err :: "string option"

definition js_err :: "string \<Rightarrow> js_result" where
  "js_err msg = \<lparr>str = None, err = Some msg\<rparr>"

definition js_ok :: js_result where
  "js_ok = \<lparr>str = None, err = None\<rparr>"

definition js_str :: "payload \<Rightarrow> js_result" where
  "js_str s = \<lparr>str = Some s, err = None\<rparr>"

definition js_marshalled :: "Tx reply \<Rightarrow> js_result option" where
  "js_marshalled r =
     (case r of
        Fault \<Rightarrow> None
      | Failure e \<Rightarrow> Some (js_err e)
      | Value tx \<Rightarrow>
          (case tx_json tx of
             Inl e \<Rightarrow> Some (js_err e)
           | Inr txInfoBytes \<Rightarrow> Some (js_str (Json txInfoBytes))))"

definition js_marshalled_with_message :: "Tx reply \<Rightarrow> js_result option" where
  "js_marshalled_with_message r =
     (case r of
        Fault \<Rightarrow> None
      | Failure e \<Rightarrow> Some (js_err e)
      | Value tx \<Rightarrow>
          (case tx_json tx of
             Inl e \<Rightarrow> Some (js_err e)
           | Inr txInfoBytes \<Rightarrow>
               (case txInfoBytes of
                  JObject members \<Rightarrow>
                    let obj = map_assign (map_of_members members) ''MessageToSign''
                                (JString (L1SignatureBody tx))
                    in Some (js_str (Json (json_Marshal_map obj)))
                | JNull \<Rightarrow> None
                | _ \<Rightarrow> Some (js_err (UnmarshalTypeError txInfoBytes ''map[string]interface {}'')))))"

definition js_no_client :: string where
  "js_no_client = ''client is not created, call createClient() first''"

definition insufficient :: string where
  "insufficient = ''insufficient arguments''"

text \<open>The arguments at the given positions as numbers; \<open>None\<close> when one of them is no number.\<close>

definition js_Ints :: "js_value list \<Rightarrow> nat list \<Rightarrow> int64 list option" where
  "js_Ints args positions = those (map (\<lambda>i. js_Int (args ! i)) positions)"

subsection \<open>Keys and clients\<close>

definition generateAPIKey ::
  "engine \<Rightarrow> 'k world \<Rightarrow> js_value list \<Rightarrow> js_key_result option \<times> 'k world" where
  "generateAPIKey E w args =
     (let seed = (case args of JSString s # _ \<Rightarrow> s | _ \<Rightarrow> '''');
          seedP = (if seed \<noteq> '''' then Some seed else None)
      in (case SampleScalar E (calls w) seedP of
            None \<Rightarrow> None
          | Some (sk, pk) \<Rightarrow>
              Some \<lparr>privateKey = hexutil_Encode sk, publicKey = hexutil_Encode pk, key_err = None\<rparr>,
          called w (CallSampleScalar seedP)))"

definition createClient ::
  "engine \<Rightarrow> byte world \<Rightarrow> js_value list \<Rightarrow> js_result option \<times> byte world" where
  "createClient E w args =
     (if length args < 5 then (Some (js_err insufficient), w)
      else
        let url = js_String (args ! 0); privateKey = js_String (args ! 1) in
        (case js_Ints args [2, 3, 4] of
           None \<Rightarrow> (None, w)
         | Some ns \<Rightarrow>
             let chainId' = (ucast (ns ! 0) :: 32 word);
                 apiKeyIndex' = (ucast (ns ! 1) :: byte);
                 accountIndex' = ns ! 2
             in
             if sint accountIndex' \<le> 0 then (Some (js_err ''invalid account index''), w)
             else
               let w1 = called w (CallNewTxClient url privateKey accountIndex' apiKeyIndex' chainId') in
               (case NewTxClient E (calls w) url privateKey accountIndex' apiKeyIndex' chainId' of
                  Fault \<Rightarrow> (None, w1)
                | Failure e \<Rightarrow> (Some (js_err e), w1\<lparr>txClient := None\<rparr>)
                | Value pk \<Rightarrow>
                    let c = \<lparr>addr = allocated w, endpoint = url, accountIndex = accountIndex',
                             apiKeyIndex = apiKeyIndex', chainId = chainId', PubKeyBytes = pk\<rparr>;
                        m = (case backupTxClients w of None \<Rightarrow> Map.empty | Some f \<Rightarrow> f)
                    in (Some js_ok,
                        w1\<lparr>txClient := Some c, backupTxClients := Some (m(apiKeyIndex' \<mapsto> c)),
                           allocated := Suc (allocated w)\<rparr>))))"

definition checkClient ::
  "engine \<Rightarrow> byte world \<Rightarrow> js_value list \<Rightarrow> js_result option \<times> byte world" where
  "checkClient E w args =
     (if length args < 2 then (Some (js_err insufficient), w)
      else
        (case js_Ints args [0, 1] of
           None \<Rightarrow> (None, w)
         | Some ns \<Rightarrow>
             let apiKeyIndex' = (ucast (ns ! 0) :: byte); accountIndex' = ns ! 1 in
             (case map_index (backupTxClients w) apiKeyIndex' of
                None \<Rightarrow> (Some (js_err ''api key not registered''), w)
              | Some client \<Rightarrow>
                  if apiKeyIndex client \<noteq> apiKeyIndex' then
                    (Some (js_err (''apiKeyIndex does not match. expected ''
                        @ string_of_nat (unat (apiKeyIndex client))
                        @ '' but got '' @ string_of_nat (unat apiKeyIndex'))), w)
                  else if accountIndex client \<noteq> accountIndex' then
                    (Some (js_err (''accountIndex does not match. expected ''
                        @ string_of_int (sint (accountIndex client))
                        @ '' but got '' @ string_of_int (sint accountIndex'))), w)
                  else
                    let w1 = called w (CallGetApiKey client accountIndex' apiKeyIndex') in
                    (case GetApiKey E (calls w) client accountIndex' apiKeyIndex' of
                       Fault \<Rightarrow> (None, w1)
                     | Failure e \<Rightarrow> (Some (js_err (''failed to get Api Keys. err: '' @ e)), w1)
                     | Value key \<Rightarrow>
                         let pubKeyStr = strings_Replace_0x (hexutil_Encode (PubKeyBytes client)) in
                         (case ApiKeys key of
                            [] \<Rightarrow> (None, w1)
                          | ak # _ \<Rightarrow>
                              if PublicKey ak \<noteq> pubKeyStr then
                                (Some (js_err (''private key does not match the one on Lighter. ownPubKey: ''
                                    @ pubKeyStr @ '' response: '' @ show_ApiKey ak)), w1)
                              else (Some js_ok, w1))))))"

definition switchAPIKey :: "byte world \<Rightarrow> js_value list \<Rightarrow> js_result option \<times> byte world" where
  "switchAPIKey w args =
     (if length args < 1 then (Some (js_err insufficient), w)
      else
        (case js_Int (args ! 0) of
           None \<Rightarrow> (None, w)
         | Some n \<Rightarrow>
             (case map_index (backupTxClients w) (ucast n :: byte) of
                None \<Rightarrow> (Some (js_err ''api key not registered''), w)
              | Some client \<Rightarrow> (Some js_ok, w\<lparr>txClient := Some client\<rparr>))))"

subsection \<open>The Sign functions\<close>

definition signChangePubKey ::
  "engine \<Rightarrow> 'k world \<Rightarrow> js_value list \<Rightarrow> js_result option \<times> 'k world" where
  "signChangePubKey E w args =
     (case txClient w of
        None \<Rightarrow> (Some (js_err js_no_client), w)
      | Some c \<Rightarrow>
          if length args < 2 then (Some (js_err insufficient), w)
          else
            let pubKeyStr = js_String (args ! 0) in
            (case js_Int (args ! 1) of
               None \<Rightarrow> (None, w)
             | Some nonce \<Rightarrow>
                 (case hexutil_Decode pubKeyStr of
                    Inl e \<Rightarrow> (Some (js_err (hex_error_text e)), w)
                  | Inr pubKeyBytes \<Rightarrow>
                      if length pubKeyBytes \<noteq> 40 then
                        (Some (js_err (''invalid pub key length. expected 40 but got ''
                                         @ string_of_nat (length pubKeyBytes))), w)
                      else
                        (case transaction E w c (ChangePubKeyReq pubKeyBytes) (new_TransactOpts nonce) of
                           (r, w') \<Rightarrow> (js_marshalled_with_message r, w')))))"

definition signCreateOrder ::
  "engine \<Rightarrow> int \<Rightarrow> 'k world \<Rightarrow> js_value list \<Rightarrow> js_result option \<times> 'k world" where
  "signCreateOrder E now w args =
     (case txClient w of
        None \<Rightarrow> (Some (js_err js_no_client), w)
      | Some c \<Rightarrow>
          if length args < 11 then (Some (js_err insufficient), w)
          else
            (case js_Ints args [0, 1, 2, 3, 4, 5, 6, 7, 8, 9, 10] of
               None \<Rightarrow> (None, w)
             | Some ns \<Rightarrow>
                 let orderExpiry = ns ! 9; nonce = ns ! 10;
                     orderExpiry' = (if orderExpiry = - 1 then UnixMilli (now + Hour * 24 * 28) else orderExpiry);
                     txInfo = \<lparr>MarketIndex = ucast (ns ! 0), ClientOrderIndex = ns ! 1,
                               BaseAmount = ns ! 2, Price = ucast (ns ! 3), IsAsk = ucast (ns ! 4),
                               Type = ucast (ns ! 5), TimeInForce = ucast (ns ! 6),
                               ReduceOnly = ucast (ns ! 7), TriggerPrice = ucast (ns ! 8),
                               OrderExpiry = orderExpiry'\<rparr>
                 in (case transaction E w c (CreateOrderReq txInfo) (new_TransactOpts nonce) of
                       (r, w') \<Rightarrow> (js_marshalled r, w'))))"

definition signCancelOrder ::
  "engine \<Rightarrow> 'k world \<Rightarrow> js_value list \<Rightarrow> js_result option \<times> 'k world" where
  "signCancelOrder E w args =
     (case txClient w of
        None \<Rightarrow> (Some (js_err js_no_client), w)
      | Some c \<Rightarrow>
          if length args < 3 then (Some (js_err insufficient), w)
          else
            (case js_Ints args [0, 1, 2] of
               None \<Rightarrow> (None, w)
             | Some ns \<Rightarrow>
                 (case transaction E w c (CancelOrderTxReq (ucast (ns ! 0)) (ns ! 1))
                         (new_TransactOpts (ns ! 2)) of
                    (r, w') \<Rightarrow> (js_marshalled r, w'))))"

definition signCreateGroupedOrders ::
  "engine \<Rightarrow> int \<Rightarrow> 'k world \<Rightarrow> js_value list \<Rightarrow> js_result option \<times> 'k world" where
  "signCreateGroupedOrders E now w args =
     (case txClient w of
        None \<Rightarrow> (Some (js_err js_no_client), w)
      | Some c \<Rightarrow>
          if length args < 3 then
            (Some (js_err ''insufficient arguments: expected groupingType, ordersJSON, nonce''), w)
          else
            (case js_Int (args ! 0) of
               None \<Rightarrow> (None, w)
             | Some groupingType \<Rightarrow>
                 let ordersJSON = js_String (args ! 1) in
                 (case js_Int (args ! 2) of
                    None \<Rightarrow> (None, w)
                  | Some nonce \<Rightarrow>
                      (case Unmarshal_orders (json_syntax E ordersJSON) of
                         Inl e \<Rightarrow> (Some (js_err (''failed to parse orders JSON: '' @ e)), w)
                       | Inr ordersData \<Rightarrow>
                           (case orders_of now 0 ordersData of
                              Inl e \<Rightarrow> (Some (js_err e), w)
                            | Inr orders \<Rightarrow>
                                (case transaction E w c
                                        (CreateGroupedOrdersTxReq (ucast groupingType) orders)
                                        (new_TransactOpts nonce) of
                                   (r, w') \<Rightarrow> (js_marshalled r, w')))))))"

definition signWithdraw ::
  "engine \<Rightarrow> 'k world \<Rightarrow> js_value list \<Rightarrow> js_result option \<times> 'k world" where
  "signWithdraw E w args =
     (case txClient w of
        None \<Rightarrow> (Some (js_err js_no_client), w)
      | Some c \<Rightarrow>
          if length args < 2 then (Some (js_err insufficient), w)
          else
            (case js_Ints args [0, 1] of
               None \<Rightarrow> (None, w)
             | Some ns \<Rightarrow>
                 (case transaction E w c (WithdrawTxReq (ns ! 0)) (new_TransactOpts (ns ! 1)) of
                    (r, w') \<Rightarrow> (js_marshalled r, w'))))"

definition signCreateSubAccount ::
  "engine \<Rightarrow> 'k world \<Rightarrow> js_value list \<Rightarrow> js_result option \<times> 'k world" where
  "signCreateSubAccount E w args =
     (case txClient w of
        None \<Rightarrow> (Some (js_err js_no_client), w)
      | Some c \<Rightarrow>
          if length args < 1 then (Some (js_err insufficient), w)
          else
            (case js_Int (args ! 0) of
               None \<Rightarrow> (None, w)
             | Some nonce \<Rightarrow>
                 (case transaction E w c CreateSubAccountReq (new_TransactOpts nonce) of
                    (r, w') \<Rightarrow> (js_marshalled r, w'))))"

definition signCancelAllOrders ::
  "engine \<Rightarrow> 'k world \<Rightarrow> js_value list \<Rightarrow> js_result option \<times> 'k world" where
  "signCancelAllOrders E w args =
     (case txClient w of
        None \<Rightarrow> (Some (js_err js_no_client), w)
      | Some c \<Rightarrow>
          if length args < 3 then (Some (js_err insufficient), w)
          else
            (case js_Ints args [0, 1, 2] of
               None \<Rightarrow> (None, w)
             | Some ns \<Rightarrow>
                 (case transaction E w c (CancelAllOrdersTxReq (ucast (ns ! 0)) (ns ! 1))
                         (new_TransactOpts (ns ! 2)) of
                    (r, w') \<Rightarrow> (js_marshalled r, w'))))"

definition signModifyOrder ::
  "engine \<Rightarrow> 'k world \<Rightarrow> js_value list \<Rightarrow> js_result option \<times> 'k world" where
  "signModifyOrder E w args =
     (case txClient w of
        None \<Rightarrow> (Some (js_err js_no_client), w)
      | Some c \<Rightarrow>
          if length args < 6 then (Some (js_err insufficient), w)
          else
            (case js_Ints args [0, 1, 2, 3, 4, 5] of
               None \<Rightarrow> (None, w)
             | Some ns \<Rightarrow>
                 (case transaction E w c
                         (ModifyOrderTxReq (ucast (ns ! 0)) (ns ! 1) (ns ! 2) (ucast (ns ! 3)) (ucast (ns ! 4)))
                         (new_TransactOpts (ns ! 5)) of
                    (r, w') \<Rightarrow> (js_marshalled r, w'))))"

definition signTransfer ::
  "engine \<Rightarrow> 'k world \<Rightarrow> js_value list \<Rightarrow> js_result option \<times> 'k world" where
  "signTransfer E w args =
     (case txClient w of
        None \<Rightarrow> (Some (js_err js_no_client), w)
      | Some c \<Rightarrow>
          if length args < 5 then (Some (js_err insufficient), w)
          else
            (case js_Ints args [0, 1, 2] of
               None \<Rightarrow> (None, w)
             | Some ns \<Rightarrow>
                 let memoStr = js_String (args ! 3) in
                 (case js_Int (args ! 4) of
                    None \<Rightarrow> (None, w)
                  | Some nonce \<Rightarrow>
                      if length memoStr \<noteq> 32 then (Some (js_err ''memo expected to be 32 bytes long''), w)
                      else
                        let memo = map (\<lambda>ch. of_char ch :: byte) memoStr in
                        (case transaction E w c (TransferTxReq (ns ! 0) (ns ! 1) (ns ! 2) memo)
                                (new_TransactOpts nonce) of
                           (r, w') \<Rightarrow> (js_marshalled_with_message r, w')))))"

definition signCreatePublicPool ::
  "engine \<Rightarrow> 'k world \<Rightarrow> js_value list \<Rightarrow> js_result option \<times> 'k world" where
  "signCreatePublicPool E w args =
     (case txClient w of
        None \<Rightarrow> (Some (js_err js_no_client), w)
      | Some c \<Rightarrow>
          if length args < 4 then (Some (js_err insufficient), w)
          else
            (case js_Ints args [0, 1, 2, 3] of
               None \<Rightarrow> (None, w)
             | Some ns \<Rightarrow>
                 (case transaction E w c (CreatePublicPoolTxReq (ns ! 0) (ns ! 1) (ns ! 2))
                         (new_TransactOpts (ns ! 3)) of
                    (r, w') \<Rightarrow> (js_marshalled r, w'))))"

definition signUpdatePublicPool ::
  "engine \<Rightarrow> 'k world \<Rightarrow> js_value list \<Rightarrow> js_result option \<times> 'k world" where
  "signUpdatePublicPool E w args =
     (case txClient w of
        None \<Rightarrow> (Some (js_err js_no_client), w)
      | Some c \<Rightarrow>
          if length args < 5 then (Some (js_err insufficient), w)
          else
            (case js_Ints args [0, 1, 2, 3, 4] of
               None \<Rightarrow> (None, w)
             | Some ns \<Rightarrow>
                 (case transaction E w c
                         (UpdatePublicPoolTxReq (ns ! 0) (ucast (ns ! 1)) (ns ! 2) (ns ! 3))
                         (new_TransactOpts (ns ! 4)) of
                    (r, w') \<Rightarrow> (js_marshalled r, w'))))"

definition signMintShares ::
  "engine \<Rightarrow> 'k world \<Rightarrow> js_value list \<Rightarrow> js_result option \<times> 'k world" where
  "signMintShares E w args =
     (case txClient w of
        None \<Rightarrow> (Some (js_err js_no_client), w)
      | Some c \<Rightarrow>
          if length args < 3 then (Some (js_err insufficient), w)
          else
            (case js_Ints args [0, 1, 2] of
               None \<Rightarrow> (None, w)
             | Some ns \<Rightarrow>
                 (case transaction E w c (MintSharesTxReq (ns ! 0) (ns ! 1)) (new_TransactOpts (ns ! 2)) of
                    (r, w') \<Rightarrow> (js_marshalled r, w'))))"

definition signBurnShares ::
  "engine \<Rightarrow> 'k world \<Rightarrow> js_value list \<Rightarrow> js_result option \<times> 'k world" where
  "signBurnShares E w args =
     (case txClient w of
        None \<Rightarrow> (Some (js_err js_no_client), w)
      | Some c \<Rightarrow>
          if length args < 3 then (Some (js_err insufficient), w)
          else
            (case js_Ints args [0, 1, 2] of
               None \<Rightarrow> (None, w)
             | Some ns \<Rightarrow>
                 (case transaction E w c (BurnSharesTxReq (ns ! 0) (ns ! 1)) (new_TransactOpts (ns ! 2)) of
                    (r, w') \<Rightarrow> (js_marshalled r, w'))))"

definition signUpdateLeverage ::
  "engine \<Rightarrow> 'k world \<Rightarrow> js_value list \<Rightarrow> js_result option \<times> 'k world" where
  "signUpdateLeverage E w args =
     (case txClient w of
        None \<Rightarrow> (Some (js_err js_no_client), w)
      | Some c \<Rightarrow>
          if length args < 4 then (Some (js_err insufficient), w)
          else
            (case js_Ints args [0, 1, 2, 3] of
               None \<Rightarrow> (None, w)
             | Some ns \<Rightarrow>
                 (case transaction E w c
                         (UpdateLeverageTxReq (ucast (ns ! 0)) (ucast (ns ! 1)) (ucast (ns ! 2)))
                         (new_TransactOpts (ns ! 3)) of
                    (r, w') \<Rightarrow> (js_marshalled r, w'))))"

definition signUpdateMargin ::
  "engine \<Rightarrow> 'k world \<Rightarrow> js_value list \<Rightarrow> js_result option \<times> 'k world" where
  "signUpdateMargin E w args =
     (case txClient w of
        None \<Rightarrow> (Some (js_err ''Client is not created, call CreateClient() first''), w)
      | Some c \<Rightarrow>
          if length args < 4 then (Some (js_err insufficient), w)
          else
            (case js_Ints args [0, 1, 2, 3] of
               None \<Rightarrow> (None, w)
             | Some ns \<Rightarrow>
                 (case transaction E w c (UpdateMarginTxReq (ucast (ns ! 0)) (ns ! 1) (ucast (ns ! 2)))
                         (new_TransactOpts (ns ! 3)) of
                    (r, w') \<Rightarrow> (js_marshalled r, w'))))"

definition createAuthToken ::
  "engine \<Rightarrow> int \<Rightarrow> 'k world \<Rightarrow> js_value list \<Rightarrow> js_result option \<times> 'k world" where
  "createAuthToken E now w args =
     (case txClient w of
        None \<Rightarrow> (Some (js_err js_no_client), w)
      | Some c \<Rightarrow>
          if length args < 1 then (Some (js_err insufficient), w)
          else
            (case js_Int (args ! 0) of
               None \<Rightarrow> (None, w)
             | Some deadline \<Rightarrow>
                 let deadline' = (if deadline = 0 then Unix (now + Hour * 7) else deadline);
                     w' = called w (CallGetAuthToken c deadline')
                 in (case GetAuthToken E (calls w) c deadline' of
                       Fault \<Rightarrow> (None, w')
                     | Failure e \<Rightarrow> (Some (js_err e), w')
                     | Value authToken \<Rightarrow> (Some (js_str (Plain authToken)), w'))))"

section \<open>The operations as a whole\<close>

text \<open>
  A call of one of the fifteen transaction builders of package \<open>mobile\<close>, with its
  arguments in the order of the Go signature.
\<close>

datatype build_call =
    ChangePubKey string int64
  | CreateOrder int64 int64 int64 int64 int64 int64 int64 int64 int64 int64 int64
  | CreateGroupedOrders int64 string int64
  | CancelOrder int64 int64 int64
  | Withdraw int64 int64
  | CreateSubAccount int64
  | CancelAllOrders int64 int64 int64
  | ModifyOrder int64 int64 int64 int64 int64 int64
  | Transfer int64 int64 int64 string int64
  | CreatePublicPool int64 int64 int64 int64
  | UpdatePublicPool int64 int64 int64 int64 int64
  | MintShares int64 int64 int64
  | BurnShares int64 int64 int64
  | UpdateLeverage int64 int64 int64 int64
  | UpdateMargin int64 int64 int64 int64

fun Sign :: "engine \<Rightarrow> int \<Rightarrow> 'k world \<Rightarrow> build_call \<Rightarrow> TxResult option \<times> 'k world" where
  "Sign E now w (ChangePubKey pubKey nonce) = SignChangePubKey E w pubKey nonce"
| "Sign E now w (CreateOrder a b c d e f g h i j nonce) = SignCreateOrder E now w a b c d e f g h i j nonce"
| "Sign E now w (CreateGroupedOrders g ordersJSON nonce) = SignCreateGroupedOrders E now w g ordersJSON nonce"
| "Sign E now w (CancelOrder a b nonce) = SignCancelOrder E w a b nonce"
| "Sign E now w (Withdraw a nonce) = SignWithdraw E w a nonce"
| "Sign E now w (CreateSubAccount nonce) = SignCreateSubAccount E w nonce"
| "Sign E now w (CancelAllOrders a b nonce) = SignCancelAllOrders E w a b nonce"
| "Sign E now w (ModifyOrder a b c d e nonce) = SignModifyOrder E w a b c d e nonce"
| "Sign E now w (Transfer a b c memo nonce) = SignTransfer E w a b c memo nonce"
| "Sign E now w (CreatePublicPool a b c nonce) = SignCreatePublicPool E w a b c nonce"
| "Sign E now w (UpdatePublicPool a b c d nonce) = SignUpdatePublicPool E w a b c d nonce"
| "Sign E now w (MintShares a b nonce) = SignMintShares E w a b nonce"
| "Sign E now w (BurnShares a b nonce) = SignBurnShares E w a b nonce"
| "Sign E now w (UpdateLeverage a b c nonce) = SignUpdateLeverage E w a b c nonce"
| "Sign E now w (UpdateMargin a b c nonce) = SignUpdateMargin E w a b c nonce"


text \<open>
  The checks a builder makes on its fields before it turns to the engine: the length of the
  decoded public key, the length of the memo, the shape of the orders document.
\<close>

fun fields_accepted :: "engine \<Rightarrow> int \<Rightarrow> build_call \<Rightarrow> bool" where
  "fields_accepted E now (ChangePubKey pubKey _) =
     (case hexutil_Decode pubKey of Inl _ \<Rightarrow> False | Inr pubKeyBytes \<Rightarrow> length pubKeyBytes = 40)"
| "fields_accepted E now (Transfer _ _ _ memo _) = (length memo = 32)"
| "fields_accepted E now (CreateGroupedOrders _ ordersJSON _) =
     (case Unmarshal_orders (json_syntax E ordersJSON) of
        Inl _ \<Rightarrow> False
      | Inr ordersData \<Rightarrow> (case orders_of now 0 ordersData of Inl _ \<Rightarrow> False | Inr _ \<Rightarrow> True))"
| "fields_accepted E now _ = True"


text \<open>The message a builder returns when \<open>txClient\<close> is nil.\<close>

fun not_created :: "build_call \<Rightarrow> string" where
  "not_created (UpdateMargin _ _ _ _) = ''Client is not created, call CreateClient() first''"
| "not_created _ = no_client"

text \<open>The functions of the WebAssembly build that return a transaction or a token.\<close>

datatype js_export =
    JS_SignChangePubKey
  | JS_SignCreateOrder
  | JS_SignCancelOrder
  | JS_SignCreateGroupedOrders
  | JS_SignWithdraw
  | JS_SignCreateSubAccount
  | JS_SignCancelAllOrders
  | JS_SignModifyOrder
  | JS_SignTransfer
  | JS_SignCreatePublicPool
  | JS_SignUpdatePublicPool
  | JS_SignMintShares
  | JS_SignBurnShares
  | JS_SignUpdateLeverage
  | JS_CreateAuthToken
  | JS_SignUpdateMargin

fun js_call ::
  "engine \<Rightarrow> int \<Rightarrow> 'k world \<Rightarrow> js_export \<Rightarrow> js_value list \<Rightarrow> js_result option \<times> 'k world" where
  "js_call E now w JS_SignChangePubKey args = signChangePubKey E w args"
| "js_call E now w JS_SignCreateOrder args = signCreateOrder E now w args"
| "js_call E now w JS_SignCancelOrder args = signCancelOrder E w args"
| "js_call E now w JS_SignCreateGroupedOrders args = signCreateGroupedOrders E now w args"
| "js_call E now w JS_SignWithdraw args = signWithdraw E w args"
| "js_call E now w JS_SignCreateSubAccount args = signCreateSubAccount E w args"
| "js_call E now w JS_SignCancelAllOrders args = signCancelAllOrders E w args"
| "js_call E now w JS_SignModifyOrder args = signModifyOrder E w args"
| "js_call E now w JS_SignTransfer args = signTransfer E w args"
| "js_call E now w JS_SignCreatePublicPool args = signCreatePublicPool E w args"
| "js_call E now w JS_SignUpdatePublicPool args = signUpdatePublicPool E w args"
| "js_call E now w JS_SignMintShares args = signMintShares E w args"
| "js_call E now w JS_SignBurnShares args = signBurnShares E w args"
| "js_call E now w JS_SignUpdateLeverage args = signUpdateLeverage E w args"
| "js_call E now w JS_CreateAuthToken args = createAuthToken E now w args"
| "js_call E now w JS_SignUpdateMargin args = signUpdateMargin E w args"

fun js_not_created :: "js_export \<Rightarrow> string" where
  "js_not_created JS_SignUpdateMargin = ''Client is not created, call CreateClient() first''"
| "js_not_created _ = js_no_client"


subsection \<open>Sequences of calls\<close>

text \<open>
  Any call a host can make on package \<open>mobile\<close>, with the reading of the clock at the
  time of the call, and the state it leaves.
\<close>

datatype mobile_op =
    DoGenerateAPIKey string
  | DoCreateClient string string int64 int64 int64
  | DoCheckClient int64 int64
  | DoSwitchAPIKey int64
  | DoSign build_call
  | DoCreateAuthToken int64

fun mobile_step :: "engine \<Rightarrow> int64 world \<Rightarrow> int \<times> mobile_op \<Rightarrow> int64 world" where
  "mobile_step E w (now, DoGenerateAPIKey seed) = snd (GenerateAPIKey E w seed)"
| "mobile_step E w (now, DoCreateClient url key chain slot account) =
     snd (CreateClient E w url key chain slot account)"
| "mobile_step E w (now, DoCheckClient slot account) = snd (CheckClient E w slot account)"
| "mobile_step E w (now, DoSwitchAPIKey slot) = snd (SwitchAPIKey w slot)"
| "mobile_step E w (now, DoSign call) = snd (Sign E now w call)"
| "mobile_step E w (now, DoCreateAuthToken deadline) = snd (CreateAuthToken E now w deadline)"

definition mobile_run :: "engine \<Rightarrow> int64 world \<Rightarrow> (int \<times> mobile_op) list \<Rightarrow> int64 world" where
  "mobile_run E w ops = foldl (mobile_step E) w ops"

text \<open>The same for the WebAssembly build.\<close>

datatype js_op =
    JsGenerateAPIKey "js_value list"
  | JsCreateClient "js_value list"
  | JsCheckClient "js_value list"
  | JsSwitchAPIKey "js_value list"
  | JsCall js_export "js_value list"

fun js_step :: "engine \<Rightarrow> byte world \<Rightarrow> int \<times> js_op \<Rightarrow> byte world" where
  "js_step E w (now, JsGenerateAPIKey args) = snd (generateAPIKey E w args)"
| "js_step E w (now, JsCreateClient args) = snd (createClient E w args)"
| "js_step E w (now, JsCheckClient args) = snd (checkClient E w args)"
| "js_step E w (now, JsSwitchAPIKey args) = snd (switchAPIKey w args)"
| "js_step E w (now, JsCall f args) = snd (js_call E now w f args)"

definition js_run :: "engine \<Rightarrow> byte world \<Rightarrow> (int \<times> js_op) list \<Rightarrow> byte world" where
  "js_run E w ops = foldl (js_step E) w ops"

text \<open>The sessions of the slot mapping, and the invariant of the registry.\<close>

definition registered :: "'k world \<Rightarrow> TxClient set" where
  "registered w = (case backupTxClients w of None \<Rightarrow> {} | Some m \<Rightarrow> ran m)"

definition registry_ok :: "'k world \<Rightarrow> bool" where
  "registry_ok w \<longleftrightarrow>
     (\<forall>c. txClient w = Some c \<longrightarrow> c \<in> registered w) \<and>
     (\<forall>c \<in> registered w. addr c < allocated w) \<and>
     (\<forall>c \<in> registered w. \<forall>c' \<in> registered w. addr c = addr c' \<longrightarrow> c = c')"

section \<open>Engines for the examples\<close>

definition signed_tx :: Tx where
  "signed_tx =
     \<lparr>tx_json = Inr (JObject [(''Nonce'', JNumber 7), (''AccountIndex'', JNumber 1)]),
      L1SignatureBody = ''sign this''\<rparr>"

text \<open>
  An engine that accepts every non-empty private key, has the public key \<open>ab\<close>
  registered for every account, and signs every request.
\<close>

definition sound_engine :: engine where
  "sound_engine =
     \<lparr>json_syntax = (\<lambda>s. if s = ''[]'' then Wellformed (JArray []) else Malformed ''unexpected end of JSON input''),
      SampleScalar = (\<lambda>h seed. Some ([1], [2])),
      NewTxClient = (\<lambda>h url key account slot chain.
         if key = '''' then Failure ''empty private key'' else Value [0xAB]),
      GetApiKey = (\<lambda>h c account slot.
         Value \<lparr>ApiKeys = [\<lparr>AccountIndex = account, ApiKeyIndex = slot, KeyNonce = 0, PublicKey = ''ab''\<rparr>]\<rparr>),
      GetTransaction = (\<lambda>h c txInfo ops. Value signed_tx),
      GetAuthToken = (\<lambda>h c deadline. Value ''token'')\<rparr>"

text \<open>The same engine, with the registered key written in upper case.\<close>

definition upper_case_engine :: engine where
  "upper_case_engine =
     sound_engine\<lparr>GetApiKey := (\<lambda>h c account slot.
         Value \<lparr>ApiKeys = [\<lparr>AccountIndex = account, ApiKeyIndex = slot, KeyNonce = 0, PublicKey = ''AB''\<rparr>]\<rparr>)\<rparr>"

text \<open>An engine whose lookup answers with no key at all and whose signing panics.\<close>

definition faulty_engine :: engine where
  "faulty_engine =
     sound_engine\<lparr>GetApiKey := (\<lambda>h c account slot. Value \<lparr>ApiKeys = []\<rparr>),
                  GetTransaction := (\<lambda>h c txInfo ops. Fault)\<rparr>"

text \<open>The state after a first successful \<open>CreateClient\<close> for slot 0 and account 1.\<close>

definition one_client :: "int64 world" where
  "one_client = snd (CreateClient sound_engine start ''https://host'' ''0x01'' 304 0 1)"

definition js_one_client :: "byte world" where
  "js_one_client =
     snd (createClient sound_engine start
            [JSString ''https://host'', JSString ''0x01'', JSNumber 304, JSNumber 0, JSNumber 1])"

text \<open>The first client: what \<open>one_client\<close> holds as \<open>txClient\<close> and under slot 0.\<close>

definition first_client :: TxClient where
  "first_client =
     \<lparr>addr = 0, endpoint = ''https://host'', accountIndex = 1, apiKeyIndex = 0, chainId = 304,
      PubKeyBytes = [0xAB]\<rparr>"

text \<open>
  A second \<open>CreateClient\<close>, for slot 1 and with an empty private key, which the engine
  refuses; then \<open>SwitchAPIKey\<close> back to slot 0.
\<close>

definition after_failed_open :: "int64 world" where
  "after_failed_open = snd (CreateClient sound_engine one_client ''https://host'' '''' 304 1 1)"

definition switched_back :: "int64 world" where
  "switched_back = snd (SwitchAPIKey after_failed_open 0)"

section \<open>Notions used by the theorems\<close>

text \<open>Two states with the same package variables; they may differ in the recorded calls.\<close>

definition same_registry :: "'k world \<Rightarrow> 'k world \<Rightarrow> bool" where
  "same_registry w w' \<longleftrightarrow>
     txClient w' = txClient w \<and> backupTxClients w' = backupTxClients w \<and> allocated w' = allocated w"

text \<open>
  A call that reports a session opened or selected: \<open>CreateClient\<close> or \<open>SwitchAPIKey\<close>
  returning the empty string (package \<open>mobile\<close>), \<open>createClient\<close> or \<open>switchAPIKey\<close>
  returning an object whose \<open>err\<close> is nil (WebAssembly). \<open>none_reopens\<close> says that no
  call of a sequence does so.
\<close>

fun reopens :: "engine \<Rightarrow> int64 world \<Rightarrow> int \<times> mobile_op \<Rightarrow> bool" where
  "reopens E w (now, DoCreateClient url key chain slot account) =
     (fst (CreateClient E w url key chain slot account) = '''')"
| "reopens E w (now, DoSwitchAPIKey slot) = (fst (SwitchAPIKey w slot) = '''')"
| "reopens E w _ = False"

fun none_reopens :: "engine \<Rightarrow> int64 world \<Rightarrow> (int \<times> mobile_op) list \<Rightarrow> bool" where
  "none_reopens E w [] = True"
| "none_reopens E w (x # xs) = (\<not> reopens E w x \<and> none_reopens E (mobile_step E w x) xs)"

fun js_reopens :: "engine \<Rightarrow> byte world \<Rightarrow> int \<times> js_op \<Rightarrow> bool" where
  "js_reopens E w (now, JsCreateClient args) = (fst (createClient E w args) = Some js_ok)"
| "js_reopens E w (now, JsSwitchAPIKey args) = (fst (switchAPIKey w args) = Some js_ok)"
| "js_reopens E w _ = False"

fun js_none_reopens :: "engine \<Rightarrow> byte world \<Rightarrow> (int \<times> js_op) list \<Rightarrow> bool" where
  "js_none_reopens E w [] = True"
| "js_none_reopens E w (x # xs) = (\<not> js_reopens E w x \<and> js_none_reopens E (js_step E w x) xs)"


text \<open>
  The reading of the claim that \<open>CheckClient\<close> compares the keys as bytes: the registered
  key, hex-decoded, is the session's public key.
\<close>

definition same_key_bytes :: "string \<Rightarrow> byte list \<Rightarrow> bool" where
  "same_key_bytes registered_key own \<longleftrightarrow> hex_DecodeString registered_key = Inr own"

section \<open>Properties of the bindings\<close>

subsection \<open>Without a client\<close>

lemmas mobile_defs = SignChangePubKey_def SignCreateOrder_def SignCreateGroupedOrders_def
  SignCancelOrder_def SignWithdraw_def SignCreateSubAccount_def SignCancelAllOrders_def
  SignModifyOrder_def SignTransfer_def SignCreatePublicPool_def SignUpdatePublicPool_def
  SignMintShares_def SignBurnShares_def SignUpdateLeverage_def SignUpdateMargin_def

lemmas js_defs = signChangePubKey_def signCreateOrder_def signCreateGroupedOrders_def
  signCancelOrder_def signWithdraw_def signCreateSubAccount_def signCancelAllOrders_def
  signModifyOrder_def signTransfer_def signCreatePublicPool_def signUpdatePublicPool_def
  signMintShares_def signBurnShares_def signUpdateLeverage_def signUpdateMargin_def
  createAuthToken_def

lemma Sign_no_client:
  "txClient w = None \<Longrightarrow> Sign E now w call = (Some (failed (not_created call)), w)"
  by (cases call) (simp_all add: mobile_defs)

lemma js_call_no_client:
  "txClient w = None \<Longrightarrow> js_call E now w f args = (Some (js_err (js_not_created f)), w)"
  by (cases f) (simp_all add: js_defs)

lemma CreateAuthToken_no_client:
  "txClient w = None \<Longrightarrow> CreateAuthToken E now w deadline = (Some (failed no_client), w)"
  by (simp add: CreateAuthToken_def)

subsection \<open>Arguments, options and calls\<close>





lemma called_calls: "calls (called w c) = calls w @ [c]"
  by (simp add: called_def)

lemma transaction_calls:
  "transaction E w c req ops = (r, w') \<Longrightarrow> calls w' = calls w @ [CallGetTransaction c req ops]"
  by (auto simp: transaction_def called_def)



subsection \<open>The clock, the memo and the public key\<close>

lemma UnixMilli_28_days: "UnixMilli (now + Hour * 24 * 28) = UnixMilli now + 2419200000"
proof -
  have "(now + 2419200000 * 1000000) div 1000000 = now div 1000000 + 2419200000"
    by simp
  then show ?thesis by (simp add: UnixMilli_def Hour_def)
qed

lemma Unix_7_hours: "Unix (now + Hour * 7) = Unix now + 25200"
proof -
  have "(now + 25200 * 1000000000) div 1000000000 = now div 1000000000 + 25200"
    by simp
  then show ?thesis by (simp add: Unix_def Hour_def)
qed

lemma called_neq: "called w x \<noteq> w"
proof
  assume "called w x = w"
  then have "calls (called w x) = calls w" by simp
  then show False by (simp add: called_def)
qed

lemma SignTransfer_memo:
  assumes "txClient w = Some c"
  shows "SignTransfer E w a b f memo nonce = (Some (failed ''memo expected to be 32 bytes long''), w)
           \<longleftrightarrow> length memo \<noteq> 32"
  using assms called_neq [of w]
  by (auto simp: SignTransfer_def transaction_def Let_def)

lemma SignTransfer_reaches:
  assumes "txClient w = Some c" "length memo = 32"
  shows "calls (snd (SignTransfer E w a b f memo nonce)) =
     calls w @ [CallGetTransaction c (TransferTxReq a b f (map of_char memo)) (new_TransactOpts nonce)]"
  using assms
  by (auto simp: SignTransfer_def transaction_def Let_def called_def)

lemma SignChangePubKey_length:
  assumes "txClient w = Some c" "hexutil_Decode pk = Inr bs" "length bs \<noteq> 40"
  shows "SignChangePubKey E w pk nonce =
     (Some (failed (''invalid pub key length. expected 40 but got '' @ string_of_nat (length bs))), w)"
  using assms by (simp add: SignChangePubKey_def)

lemma SignChangePubKey_reaches:
  assumes "txClient w = Some c" "hexutil_Decode pk = Inr bs" "length bs = 40"
  shows "calls (snd (SignChangePubKey E w pk nonce)) =
     calls w @ [CallGetTransaction c (ChangePubKeyReq bs) (new_TransactOpts nonce)]"
  using assms by (simp add: SignChangePubKey_def transaction_def called_def)

lemma SignChangePubKey_invalid:
  assumes "txClient w = Some c" "hexutil_Decode pk = Inl e"
  shows "SignChangePubKey E w pk nonce = (Some (failed (hex_error_text e)), w)"
  using assms by (simp add: SignChangePubKey_def)

lemma SignCreateOrder_expiry:
  assumes "txClient w = Some c"
  shows "\<exists>txInfo. calls (snd (SignCreateOrder E now w m ci ba p ia ot tif ro tp orderExpiry nonce)) =
           calls w @ [CallGetTransaction c (CreateOrderReq txInfo) (new_TransactOpts nonce)]
         \<and> OrderExpiry txInfo = (if orderExpiry = - 1 then UnixMilli now + 2419200000 else orderExpiry)"
  using assms UnixMilli_28_days [of now]
  by (simp add: SignCreateOrder_def transaction_def called_def Let_def)

lemma CreateAuthToken_deadline:
  assumes "txClient w = Some c"
  shows "calls (snd (CreateAuthToken E now w deadline)) =
           calls w @ [CallGetAuthToken c (if deadline = 0 then Unix now + 25200 else deadline)]"
  using assms Unix_7_hours [of now]
  by (auto simp: CreateAuthToken_def called_def Let_def split: reply.splits)

subsection \<open>Documents\<close>














subsection \<open>The registry\<close>

lemma same_registry_refl: "same_registry w w"
  by (simp add: same_registry_def)

lemma same_registry_called: "same_registry w (called w x)"
  by (simp add: same_registry_def called_def)

lemma same_registry_ok: "same_registry w w' \<Longrightarrow> registry_ok w \<Longrightarrow> registry_ok w'"
  by (simp add: same_registry_def registry_ok_def registered_def)

lemma Sign_same_registry: "same_registry w (snd (Sign E now w call))"
  by (cases call)
     (auto simp: mobile_defs transaction_def same_registry_def called_def Let_def
        split: option.splits sum.splits if_splits)

lemma js_call_same_registry: "same_registry w (snd (js_call E now w f args))"
  by (cases f)
     (auto simp: js_defs transaction_def same_registry_def called_def Let_def
        split: option.splits sum.splits if_splits reply.splits)

lemma CreateAuthToken_same_registry: "same_registry w (snd (CreateAuthToken E now w d))"
  by (auto simp: CreateAuthToken_def same_registry_def called_def Let_def
        split: option.splits reply.splits)

lemma GenerateAPIKey_same_registry: "same_registry w (snd (GenerateAPIKey E w seed))"
  by (auto simp: GenerateAPIKey_def same_registry_def called_def Let_def)

lemma generateAPIKey_same_registry: "same_registry w (snd (generateAPIKey E w args))"
  by (auto simp: generateAPIKey_def same_registry_def called_def Let_def)

lemma CheckClient_same_registry: "same_registry w (snd (CheckClient E w slot account))"
  by (auto simp: CheckClient_def same_registry_def called_def Let_def
        split: option.splits reply.splits list.splits)

lemma checkClient_same_registry: "same_registry w (snd (checkClient E w args))"
  by (auto simp: checkClient_def same_registry_def called_def Let_def
        split: option.splits reply.splits list.splits)

lemma ran_upd_cases: "x \<in> ran (m(k \<mapsto> c)) \<Longrightarrow> x = c \<or> x \<in> ran m"
  by (auto simp: ran_def split: if_splits)

lemma ran_upd_self: "c \<in> ran (m(k \<mapsto> c))"
  by (auto simp: ran_def)

lemma registry_ok_insert:
  assumes ok: "registry_ok w" and c: "addr c = allocated w"
    and m: "m = (case backupTxClients w of None \<Rightarrow> Map.empty | Some f \<Rightarrow> f)"
  shows "registry_ok (w\<lparr>calls := cs, txClient := Some c, backupTxClients := Some (m(k \<mapsto> c)),
                        allocated := Suc (allocated w)\<rparr>)"
proof -
  have old: "ran m = registered w"
    by (simp add: m registered_def split: option.splits)
  have lt: "\<And>x. x \<in> ran m \<Longrightarrow> addr x < allocated w"
    using ok by (simp add: registry_ok_def old)
  have inj: "\<And>x y. x \<in> ran m \<Longrightarrow> y \<in> ran m \<Longrightarrow> addr x = addr y \<Longrightarrow> x = y"
    using ok by (simp add: registry_ok_def old)
  show ?thesis
    unfolding registry_ok_def registered_def
    using lt inj c by (fastforce dest!: ran_upd_cases simp: ran_upd_self less_Suc_eq)
qed

lemma registry_ok_cleared:
  "registry_ok w \<Longrightarrow> registry_ok (w\<lparr>calls := cs, txClient := None\<rparr>)"
  by (simp add: registry_ok_def registered_def)

lemma CreateClient_ok:
  assumes "registry_ok w"
  shows "registry_ok (snd (CreateClient E w url key chain slot account))"
proof (cases "sint account \<le> 0")
  case True
  then show ?thesis using assms by (simp add: CreateClient_def)
next
  case False
  show ?thesis
  proof (cases "NewTxClient E (calls w) url key account (ucast slot) (ucast chain)")
    case (Value pk)
    with False show ?thesis
      using registry_ok_insert [OF assms, where cs = "calls w @ [CallNewTxClient url key account (ucast slot) (ucast chain)]"]
      by (simp add: CreateClient_def called_def Let_def)
  next
    case (Failure e)
    with False show ?thesis
      using registry_ok_cleared [OF assms]
      by (simp add: CreateClient_def called_def Let_def)
  next
    case Fault
    with False show ?thesis
      using same_registry_ok [OF same_registry_called assms]
      by (simp add: CreateClient_def Let_def)
  qed
qed

lemma createClient_ok:
  assumes "registry_ok w"
  shows "registry_ok (snd (createClient E w args))"
proof (cases "length args < 5")
  case True
  then show ?thesis using assms by (simp add: createClient_def)
next
  case long: False
  show ?thesis
  proof (cases "js_Ints args [2, 3, 4]")
    case None
    with long show ?thesis using assms by (simp add: createClient_def Let_def)
  next
    case (Some ns)
    show ?thesis
    proof (cases "sint (ns ! 2) \<le> 0")
      case True
      with long Some show ?thesis using assms by (simp add: createClient_def Let_def)
    next
      case False
      show ?thesis
      proof (cases "NewTxClient E (calls w) (js_String (args ! 0)) (js_String (args ! 1)) (ns ! 2)
                      (ucast (ns ! 1)) (ucast (ns ! 0))")
        case (Value pk)
        with long Some False show ?thesis
          using registry_ok_insert [OF assms, where cs = "calls w @ [CallNewTxClient (js_String (args ! 0))
                  (js_String (args ! 1)) (ns ! 2) (ucast (ns ! 1)) (ucast (ns ! 0))]"]
          by (simp add: createClient_def called_def Let_def)
      next
        case (Failure e)
        with long Some False show ?thesis
          using registry_ok_cleared [OF assms]
          by (simp add: createClient_def called_def Let_def)
      next
        case Fault
        with long Some False show ?thesis
          using same_registry_ok [OF same_registry_called assms]
          by (simp add: createClient_def Let_def)
      qed
    qed
  qed
qed

lemma map_index_registered: "map_index (backupTxClients w) k = Some c \<Longrightarrow> c \<in> registered w"
  by (auto simp: map_index_def registered_def ran_def split: option.splits)

lemma registered_map_index: "c \<in> registered w \<Longrightarrow> \<exists>k. map_index (backupTxClients w) k = Some c"
  by (auto simp: map_index_def registered_def ran_def split: option.splits)

lemma SwitchAPIKey_ok:
  assumes "registry_ok w"
  shows "registry_ok (snd (SwitchAPIKey w slot))"
  using assms map_index_registered [of w slot]
  by (auto simp: SwitchAPIKey_def Let_def registry_ok_def registered_def)

lemma switchAPIKey_ok:
  assumes "registry_ok w"
  shows "registry_ok (snd (switchAPIKey w args))"
  using assms map_index_registered [of w]
  by (auto simp: switchAPIKey_def Let_def registry_ok_def registered_def split: option.splits)

lemma mobile_step_ok: "registry_ok w \<Longrightarrow> registry_ok (mobile_step E w x)"
proof -
  assume ok: "registry_ok w"
  obtain now op where x: "x = (now, op)" by (cases x)
  show ?thesis
    unfolding x
    by (cases op)
       (simp_all add: ok CreateClient_ok SwitchAPIKey_ok
          same_registry_ok [OF GenerateAPIKey_same_registry ok]
          same_registry_ok [OF CheckClient_same_registry ok]
          same_registry_ok [OF Sign_same_registry ok]
          same_registry_ok [OF CreateAuthToken_same_registry ok])
qed

lemma js_step_ok: "registry_ok w \<Longrightarrow> registry_ok (js_step E w x)"
proof -
  assume ok: "registry_ok w"
  obtain now op where x: "x = (now, op)" by (cases x)
  show ?thesis
    unfolding x
    by (cases op)
       (simp_all add: ok createClient_ok switchAPIKey_ok
          same_registry_ok [OF generateAPIKey_same_registry ok]
          same_registry_ok [OF checkClient_same_registry ok]
          same_registry_ok [OF js_call_same_registry ok])
qed

lemma mobile_run_ok: "registry_ok w \<Longrightarrow> registry_ok (mobile_run E w ops)"
  unfolding mobile_run_def
  by (induction ops arbitrary: w) (simp_all add: mobile_step_ok)

lemma js_run_ok: "registry_ok w \<Longrightarrow> registry_ok (js_run E w ops)"
  unfolding js_run_def
  by (induction ops arbitrary: w) (simp_all add: js_step_ok)

lemma start_ok: "registry_ok start"
  by (simp add: registry_ok_def registered_def start_def)

subsection \<open>After a failed CreateClient\<close>

lemma CreateClient_failure:
  assumes "0 < sint account"
    and "NewTxClient E (calls w) url key account (ucast slot) (ucast chain) = Failure e"
  shows "CreateClient E w url key chain slot account =
     (''error occurred when creating TxClient. err: '' @ e,
      (called w (CallNewTxClient url key account (ucast slot) (ucast chain)))\<lparr>txClient := None\<rparr>)"
  using assms by (simp add: CreateClient_def Let_def)

lemma quiet_step:
  assumes "txClient w = None" "\<not> reopens E w x"
  shows "txClient (mobile_step E w x) = None"
proof -
  obtain now op where x: "x = (now, op)" by (cases x)
  show ?thesis
  proof (cases op)
    case (DoCreateClient url key chain slot account)
    then show ?thesis using assms x
      by (auto simp: CreateClient_def Let_def called_def split: if_splits reply.splits)
  next
    case (DoSwitchAPIKey slot)
    then show ?thesis using assms x
      by (auto simp: SwitchAPIKey_def Let_def split: if_splits)
  next
    case (DoGenerateAPIKey seed)
    then show ?thesis using assms x GenerateAPIKey_same_registry [of w E seed]
      by (simp add: same_registry_def)
  next
    case (DoCheckClient slot account)
    then show ?thesis using assms x CheckClient_same_registry [of w E slot account]
      by (simp add: same_registry_def)
  next
    case (DoSign call)
    then show ?thesis using assms x Sign_same_registry [of w E now call]
      by (simp add: same_registry_def)
  next
    case (DoCreateAuthToken d)
    then show ?thesis using assms x CreateAuthToken_same_registry [of w E now d]
      by (simp add: same_registry_def)
  qed
qed

lemma quiet_run:
  "txClient w = None \<Longrightarrow> none_reopens E w ops \<Longrightarrow> txClient (mobile_run E w ops) = None"
  unfolding mobile_run_def
  by (induction ops arbitrary: w) (simp_all add: quiet_step)

lemma js_quiet_step:
  assumes "txClient w = None" "\<not> js_reopens E w x"
  shows "txClient (js_step E w x) = None"
proof -
  obtain now op where x: "x = (now, op)" by (cases x)
  show ?thesis
  proof (cases op)
    case (JsCreateClient args)
    then show ?thesis using assms x
      by (auto simp: createClient_def Let_def called_def split: if_splits reply.splits option.splits)
  next
    case (JsSwitchAPIKey args)
    then show ?thesis using assms x
      by (auto simp: switchAPIKey_def Let_def split: if_splits option.splits)
  next
    case (JsGenerateAPIKey args)
    then show ?thesis using assms x generateAPIKey_same_registry [of w E args]
      by (simp add: same_registry_def)
  next
    case (JsCheckClient args)
    then show ?thesis using assms x checkClient_same_registry [of w E args]
      by (simp add: same_registry_def)
  next
    case (JsCall f args)
    then show ?thesis using assms x js_call_same_registry [of w E now f args]
      by (simp add: same_registry_def)
  qed
qed

lemma js_quiet_run:
  "txClient w = None \<Longrightarrow> js_none_reopens E w ops \<Longrightarrow> txClient (js_run E w ops) = None"
  unfolding js_run_def
  by (induction ops arbitrary: w) (simp_all add: js_quiet_step)

subsection \<open>Hexadecimal text and CheckClient\<close>

lemma fromHexChar_hexdigit: "n < 16 \<Longrightarrow> fromHexChar (hexdigit n) = Some n"
  by (auto simp: fromHexChar_def hexdigit_def Let_def)

lemma byte_nibbles: "word_of_nat (16 * (unat b div 16) + unat b mod 16) = (b :: byte)"
  by simp

lemma high_nibble: "unat (b::byte) div 16 < 16"
proof -
  have "unat b < 2 ^ LENGTH(8)" by (rule unsigned_less)
  then show ?thesis by simp
qed

lemma hex_DecodeString_pair:
  "hex_DecodeString (hexdigit h # hexdigit l # rest) =
     (case fromHexChar (hexdigit h) of None \<Rightarrow> Inl ErrSyntax | Some a \<Rightarrow>
        (case fromHexChar (hexdigit l) of None \<Rightarrow> Inl ErrSyntax | Some b \<Rightarrow>
           (case hex_DecodeString rest of Inl e \<Rightarrow> Inl e | Inr bs \<Rightarrow> Inr (word_of_nat (16 * a + b) # bs))))"
  by (rule hex_DecodeString.simps)

lemma hex_round_trip: "hex_DecodeString (concat (map hex_of_byte bs)) = Inr bs"
proof (induction bs)
  case Nil
  then show ?case by simp
next
  case (Cons b bs)
  have lo: "unat b mod 16 < 16" by simp
  have "hex_DecodeString (concat (map hex_of_byte (b # bs))) =
          hex_DecodeString (hexdigit (unat b div 16) # hexdigit (unat b mod 16) # concat (map hex_of_byte bs))"
    by (simp add: hex_of_byte_def)
  also have "\<dots> = Inr (word_of_nat (16 * (unat b div 16) + unat b mod 16) # bs)"
    by (simp only: hex_DecodeString_pair fromHexChar_hexdigit [OF high_nibble] fromHexChar_hexdigit [OF lo]
          Cons.IH option.case sum.case)
  also have "\<dots> = Inr (b # bs)"
    by (simp only: byte_nibbles)
  finally show ?case .
qed

lemma hex_of_byte_AB: "hex_of_byte 0xAB = ''ab''"
  by code_simp

lemma own_key_text: "strings_Replace_0x (hexutil_Encode bs) = concat (map hex_of_byte bs)"
  by (simp add: hexutil_Encode_def)

lemma one_client_eq:
  "one_client =
     \<lparr>txClient = Some first_client, backupTxClients = Some [0 \<mapsto> first_client], allocated = 1,
      calls = [CallNewTxClient ''https://host'' ''0x01'' 1 0 304]\<rparr>"
  by (simp add: one_client_def CreateClient_def sound_engine_def start_def called_def first_client_def Let_def)

lemma js_one_client_eq:
  "js_one_client =
     \<lparr>txClient = Some first_client, backupTxClients = Some [0 \<mapsto> first_client], allocated = 1,
      calls = [CallNewTxClient ''https://host'' ''0x01'' 1 0 304]\<rparr>"
  by (simp add: js_one_client_def createClient_def sound_engine_def start_def called_def
        first_client_def js_Ints_def js_Int_def js_String_def Let_def)

lemma CheckClient_compare:
  assumes "map_index (backupTxClients w) slot = Some client"
    and "apiKeyIndex client = ucast slot" and "accountIndex client = account"
    and "GetApiKey E (calls w) client account (ucast slot) = Value key"
    and "ApiKeys key = ak # rest"
  shows "CheckClient E w slot account =
     (if PublicKey ak \<noteq> concat (map hex_of_byte (PubKeyBytes client))
      then ''private key does not match the one on Lighter. ownPubKey: ''
             @ concat (map hex_of_byte (PubKeyBytes client)) @ '' response: '' @ show_ApiKey ak
      else '''',
      called w (CallGetApiKey client account (ucast slot)))"
  using assms by (simp add: CheckClient_def Let_def own_key_text)

lemma checkClient_compare:
  assumes "2 \<le> length args" and "js_Ints args [0, 1] = Some ns"
    and "map_index (backupTxClients w) (ucast (ns ! 0)) = Some client"
    and "apiKeyIndex client = ucast (ns ! 0)" and "accountIndex client = ns ! 1"
    and "GetApiKey E (calls w) client (ns ! 1) (ucast (ns ! 0)) = Value key"
    and "ApiKeys key = ak # rest"
  shows "checkClient E w args =
     (if PublicKey ak \<noteq> concat (map hex_of_byte (PubKeyBytes client))
      then Some (js_err (''private key does not match the one on Lighter. ownPubKey: ''
             @ concat (map hex_of_byte (PubKeyBytes client)) @ '' response: '' @ show_ApiKey ak))
      else Some js_ok,
      called w (CallGetApiKey client (ns ! 1) (ucast (ns ! 0))))"
  using assms
  by (simp add: checkClient_def Let_def own_key_text)

subsection \<open>The WebAssembly build\<close>


lemma signTransfer_memo:
  assumes "txClient w = Some c" and "args = [JSNumber a, JSNumber b, JSNumber f, JSString memo, JSNumber n]"
  shows "signTransfer E w args = (Some (js_err ''memo expected to be 32 bytes long''), w)
           \<longleftrightarrow> length memo \<noteq> 32"
  using assms called_neq [of w]
  by (auto simp: signTransfer_def transaction_def Let_def js_Ints_def js_Int_def js_String_def)

lemma signTransfer_reaches:
  assumes "txClient w = Some c" and "args = [JSNumber a, JSNumber b, JSNumber f, JSString memo, JSNumber n]"
    and "length memo = 32"
  shows "calls (snd (signTransfer E w args)) =
     calls w @ [CallGetTransaction c
        (TransferTxReq (word_of_int a) (word_of_int b) (word_of_int f) (map of_char memo))
        (new_TransactOpts (word_of_int n))]"
  using assms
  by (auto simp: signTransfer_def transaction_def Let_def called_def js_Ints_def js_Int_def js_String_def)

lemma signChangePubKey_length:
  assumes "txClient w = Some c" and "args = [JSString pk, JSNumber n]"
    and "hexutil_Decode pk = Inr bs" and "length bs \<noteq> 40"
  shows "signChangePubKey E w args =
     (Some (js_err (''invalid pub key length. expected 40 but got '' @ string_of_nat (length bs))), w)"
  using assms by (simp add: signChangePubKey_def js_Int_def js_String_def)

lemma signChangePubKey_reaches:
  assumes "txClient w = Some c" and "args = [JSString pk, JSNumber n]"
    and "hexutil_Decode pk = Inr bs" and "length bs = 40"
  shows "calls (snd (signChangePubKey E w args)) =
     calls w @ [CallGetTransaction c (ChangePubKeyReq bs) (new_TransactOpts (word_of_int n))]"
  using assms by (simp add: signChangePubKey_def transaction_def called_def js_Int_def js_String_def)

lemma signCreateOrder_expiry:
  assumes "txClient w = Some c" and "11 \<le> length args"
    and "js_Ints args [0, 1, 2, 3, 4, 5, 6, 7, 8, 9, 10] = Some ns"
  shows "\<exists>txInfo. calls (snd (signCreateOrder E now w args)) =
           calls w @ [CallGetTransaction c (CreateOrderReq txInfo) (new_TransactOpts (ns ! 10))]
         \<and> OrderExpiry txInfo = (if ns ! 9 = - 1 then UnixMilli now + 2419200000 else ns ! 9)"
  using assms UnixMilli_28_days [of now]
  by (simp add: signCreateOrder_def transaction_def called_def Let_def)

lemma createAuthToken_deadline:
  assumes "txClient w = Some c" and "1 \<le> length args" and "js_Int (args ! 0) = Some deadline"
  shows "calls (snd (createAuthToken E now w args)) =
           calls w @ [CallGetAuthToken c (if deadline = 0 then Unix now + 25200 else deadline)]"
  using assms Unix_7_hours [of now]
  by (auto simp: createAuthToken_def called_def Let_def split: reply.splits)


lemma switchAPIKey_unregistered:
  assumes "1 \<le> length args" and "js_Int (args ! 0) = Some n"
    and "map_index (backupTxClients w) (ucast n) = None"
  shows "switchAPIKey w args = (Some (js_err ''api key not registered''), w)"
  using assms by (cases args) (simp_all add: switchAPIKey_def)

subsection \<open>Recovered panics\<close>

text \<open>
  After a panic of the engine a builder of package \<open>mobile\<close> returns nil, not an error;
  when the lookup answers with no key, \<open>CheckClient\<close> returns the empty string.
\<close>

lemma engine_fault_returns_nil:
  assumes "txClient w = Some c" and "fields_accepted E now call"
    and "\<And>h req ops. GetTransaction E h c req ops = Fault"
  shows "fst (Sign E now w call) = None"
  using assms
  by (cases call)
     (auto simp: mobile_defs transaction_def marshalled_def marshalled_with_message_def Let_def
        split: sum.splits if_splits)

lemma CheckClient_no_key_reports_success:
  assumes "map_index (backupTxClients w) slot = Some client"
    and "apiKeyIndex client = ucast slot" and "accountIndex client = account"
    and "GetApiKey E (calls w) client account (ucast slot) = Value key"
    and "ApiKeys key = []"
  shows "fst (CheckClient E w slot account) = ''''"
  using assms by (simp add: CheckClient_def Let_def)

section \<open>The claims\<close>

text \<open>
  Claim C1. Every public operation turns an internal fault into an error result with a
  non-empty error string. The bindings do contain every panic (each function is total
  here, returning the zero value after a recovered panic), but the zero value carries no
  error: \<open>CheckClient\<close> answers the empty string, which its callers read as success, when
  the lookup returns no key and indexing \<open>key.ApiKeys[0]\<close> panics; \<open>SignCancelOrder\<close>
  answers nil when the engine panics; \<open>createClient\<close> of the WebAssembly build answers
  nil when the chain id is passed as a string and \<open>Int()\<close> panics.
\<close>

theorem recovered_panic_carries_no_error:
  "fst (CheckClient faulty_engine one_client 0 1) = ''''
   \<and> fst (SignCancelOrder faulty_engine one_client 0 0 (- 1)) = None
   \<and> fst (checkClient faulty_engine js_one_client [JSNumber 0, JSNumber 1]) = None
   \<and> fst (createClient sound_engine start
             [JSString ''https://host'', JSString ''0x01'', JSString ''304'', JSNumber 0, JSNumber 1]) = None"
  by (simp add: one_client_eq js_one_client_eq CheckClient_def checkClient_def SignCancelOrder_def
        createClient_def transaction_def marshalled_def faulty_engine_def sound_engine_def
        first_client_def map_index_def js_Ints_def js_Int_def Let_def)

text \<open>
  Claim C2. \<open>switchActive\<close> for a slot that is not registered returns an error and leaves
  the active session and the mapping unchanged. \<open>SwitchAPIKey\<close> of package \<open>mobile\<close>
  assigns \<open>backupTxClients[apiKeyIndex]\<close> to \<open>txClient\<close> before it tests the result, so
  the active session is lost: after one successful \<open>CreateClient\<close> for slot 0,
  \<open>SwitchAPIKey(5)\<close> returns its error, \<open>txClient\<close> is nil and the next builder reports
  that no client was created. (\<open>switchAPIKey\<close> of the WebAssembly build tests first; see
  \<open>switchAPIKey_unregistered\<close>.)
\<close>

theorem SwitchAPIKey_unregistered_clears_active:
  "map_index (backupTxClients one_client) 5 = None
   \<and> txClient one_client = Some first_client
   \<and> fst (SwitchAPIKey one_client 5) = ''no client initialized for api key''
   \<and> txClient (snd (SwitchAPIKey one_client 5)) = None
   \<and> backupTxClients (snd (SwitchAPIKey one_client 5)) = backupTxClients one_client
   \<and> fst (SignCancelOrder sound_engine (snd (SwitchAPIKey one_client 5)) 0 0 (- 1)) = Some (failed no_client)"
  by (simp add: one_client_eq SwitchAPIKey_def SignCancelOrder_def map_index_def Let_def)

text \<open>
  Claim C3. With no active session (\<open>txClient\<close> is nil) every builder and
  \<open>CreateAuthToken\<close> returns the no-client error and the state, with its record of engine
  calls, is unchanged; the answer does not depend on the arguments, so no field is looked
  at. In the WebAssembly build the test also comes before the count of the arguments.
  The message is \<open>client is not created, call CreateClient() first\<close> (\<open>createClient()\<close> in
  the WebAssembly build), with a capital C in \<open>SignUpdateMargin\<close> and \<open>signUpdateMargin\<close>.
\<close>

theorem no_client_short_circuit:
  assumes "txClient w = None" and "txClient jw = None"
  shows "Sign E now w call = (Some (failed (not_created call)), w)
       \<and> CreateAuthToken E now w deadline = (Some (failed no_client), w)
       \<and> js_call E now jw f args = (Some (js_err (js_not_created f)), jw)
       \<and> not_created call \<in> {''client is not created, call CreateClient() first'',
                               ''Client is not created, call CreateClient() first''}
       \<and> js_not_created f \<in> {''client is not created, call createClient() first'',
                                ''Client is not created, call CreateClient() first''}"
proof -
  have "not_created call \<in> {''client is not created, call CreateClient() first'',
                             ''Client is not created, call CreateClient() first''}"
    by (cases call) (simp_all add: no_client_def)
  moreover have "js_not_created f \<in> {''client is not created, call createClient() first'',
                                ''Client is not created, call CreateClient() first''}"
    by (cases f) (simp_all add: js_no_client_def)
  ultimately show ?thesis
    using assms by (simp add: Sign_no_client CreateAuthToken_no_client js_call_no_client)
qed

theorem no_client_short_circuit_witness:
  "txClient (start :: int64 world) = None \<and> txClient (start :: byte world) = None
   \<and> Sign sound_engine 0 (start :: int64 world) (Transfer 2 1000 1 ''short memo'' (- 1))
        = (Some (failed ''client is not created, call CreateClient() first''), start)
   \<and> CreateAuthToken sound_engine 0 (start :: int64 world) 0
        = (Some (failed ''client is not created, call CreateClient() first''), start)
   \<and> js_call sound_engine 0 (start :: byte world) JS_SignUpdateMargin []
        = (Some (js_err ''Client is not created, call CreateClient() first''), start)"
  using no_client_short_circuit [where w = "start :: int64 world" and jw = "start :: byte world"
      and E = sound_engine and now = 0 and call = "Transfer 2 1000 1 ''short memo'' (- 1)"
      and deadline = 0 and f = JS_SignUpdateMargin and args = "[]"]
  by (simp add: start_def no_client_def)



text \<open>
  Claim C5. With a session active, \<open>SignTransfer\<close> returns the memo error without a call
  into the engine exactly when the memo is not 32 bytes long, and with a memo of 32 bytes
  the engine is called; \<open>SignChangePubKey\<close> returns the length error without a call when
  the key decodes to a number of bytes other than 40, the decoder's error without a call
  when the text is no hexadecimal text with the 0x prefix, and calls the engine when the
  key decodes to 40 bytes. The same holds for \<open>signTransfer\<close> and \<open>signChangePubKey\<close> of
  the WebAssembly build.
\<close>

theorem field_length_checks:
  assumes "txClient w = Some c" and "txClient jw = Some jc"
  shows "((SignTransfer E w a b fee memo nonce =
             (Some (failed ''memo expected to be 32 bytes long''), w)) \<longleftrightarrow> length memo \<noteq> 32)
       \<and> (length memo = 32 \<longrightarrow>
            calls (snd (SignTransfer E w a b fee memo nonce)) =
              calls w @ [CallGetTransaction c (TransferTxReq a b fee (map of_char memo))
                           (new_TransactOpts nonce)])
       \<and> (\<forall>bs. hexutil_Decode pk = Inr bs \<and> length bs \<noteq> 40 \<longrightarrow>
            SignChangePubKey E w pk nonce =
              (Some (failed (''invalid pub key length. expected 40 but got ''
                               @ string_of_nat (length bs))), w))
       \<and> (\<forall>bs. hexutil_Decode pk = Inr bs \<and> length bs = 40 \<longrightarrow>
            calls (snd (SignChangePubKey E w pk nonce)) =
              calls w @ [CallGetTransaction c (ChangePubKeyReq bs) (new_TransactOpts nonce)])
       \<and> (\<forall>e. hexutil_Decode pk = Inl e \<longrightarrow>
            SignChangePubKey E w pk nonce = (Some (failed (hex_error_text e)), w))
       \<and> ((signTransfer E jw [JSNumber ja, JSNumber jb, JSNumber jfee, JSString memo, JSNumber n] =
             (Some (js_err ''memo expected to be 32 bytes long''), jw)) \<longleftrightarrow> length memo \<noteq> 32)
       \<and> (length memo = 32 \<longrightarrow>
            calls (snd (signTransfer E jw [JSNumber ja, JSNumber jb, JSNumber jfee, JSString memo, JSNumber n])) =
              calls jw @ [CallGetTransaction jc
                 (TransferTxReq (word_of_int ja) (word_of_int jb) (word_of_int jfee) (map of_char memo))
                 (new_TransactOpts (word_of_int n))])
       \<and> (\<forall>bs. hexutil_Decode pk = Inr bs \<and> length bs \<noteq> 40 \<longrightarrow>
            signChangePubKey E jw [JSString pk, JSNumber n] =
              (Some (js_err (''invalid pub key length. expected 40 but got ''
                               @ string_of_nat (length bs))), jw))
       \<and> (\<forall>bs. hexutil_Decode pk = Inr bs \<and> length bs = 40 \<longrightarrow>
            calls (snd (signChangePubKey E jw [JSString pk, JSNumber n])) =
              calls jw @ [CallGetTransaction jc (ChangePubKeyReq bs) (new_TransactOpts (word_of_int n))])"
  using SignTransfer_memo [OF assms(1), of E a b fee memo nonce]
    SignTransfer_reaches [OF assms(1), of memo E a b fee nonce]
    SignChangePubKey_length [OF assms(1), of pk _ E nonce]
    SignChangePubKey_reaches [OF assms(1), of pk _ E nonce]
    SignChangePubKey_invalid [OF assms(1), of pk _ E nonce]
    signTransfer_memo [OF assms(2) refl, of E ja jb jfee memo n]
    signTransfer_reaches [OF assms(2) refl, of memo E ja jb jfee n]
    signChangePubKey_length [OF assms(2) refl, of pk _ E n]
    signChangePubKey_reaches [OF assms(2) refl, of pk _ E n]
  by blast

theorem field_length_checks_witness:
  "txClient one_client = Some first_client \<and> txClient js_one_client = Some first_client
   \<and> length ''short memo'' \<noteq> 32
   \<and> SignTransfer sound_engine one_client 2 1000 1 ''short memo'' (- 1) =
        (Some (failed ''memo expected to be 32 bytes long''), one_client)
   \<and> signTransfer sound_engine js_one_client
          [JSNumber 2, JSNumber 1000, JSNumber 1, JSString ''short memo'', JSNumber (- 1)] =
        (Some (js_err ''memo expected to be 32 bytes long''), js_one_client)
   \<and> hexutil_Decode ''0xab'' = Inr [0xAB] \<and> length [0xAB :: byte] \<noteq> 40
   \<and> SignChangePubKey sound_engine one_client ''0xab'' (- 1) =
        (Some (failed ''invalid pub key length. expected 40 but got 1''), one_client)
   \<and> hexutil_Decode ''ab'' = Inl ErrMissingPrefix
   \<and> SignChangePubKey sound_engine one_client ''ab'' (- 1) =
        (Some (failed ''hex string without 0x prefix''), one_client)"
proof -
  have a: "txClient one_client = Some first_client" and b: "txClient js_one_client = Some first_client"
    by (simp_all add: one_client_eq js_one_client_eq)
  have d: "hexutil_Decode ''0xab'' = Inr [0xAB]"
    by (simp add: hexutil_Decode_def has0xPrefix_def fromHexChar_def)
  have e: "hexutil_Decode ''ab'' = Inl ErrMissingPrefix"
    by (simp add: hexutil_Decode_def has0xPrefix_def)
  have s: "string_of_nat (Suc 0) = ''1''"
    by code_simp
  note t = field_length_checks [OF a b, where E = sound_engine and a = 2 and b = 1000 and fee = 1
      and memo = "''short memo''" and nonce = "- 1" and ja = 2 and jb = 1000 and jfee = 1
      and n = "- 1"]
  from t [where pk = "''0xab''"] t [where pk = "''ab''"] a b d e s show ?thesis
    by (simp add: hex_error_text_def)
qed

text \<open>
  The other branch of C5 at a concrete input: a memo of 32 bytes and a key of 40 bytes
  reach the engine.
\<close>

lemma field_length_checks_accepting:
  "calls (snd (SignTransfer sound_engine one_client 2 1000 1 ''0123456789abcdef0123456789abcdef'' (- 1))) =
     calls one_client @ [CallGetTransaction first_client
        (TransferTxReq 2 1000 1 (map of_char ''0123456789abcdef0123456789abcdef'')) \<lparr>Nonce = None\<rparr>]
   \<and> (\<exists>bs. hexutil_Decode ''0x0123456789abcdef0123456789abcdef0123456789abcdef0123456789abcdef0123456789abcdef'' = Inr bs \<and> length bs = 40
        \<and> calls (snd (SignChangePubKey sound_engine one_client ''0x0123456789abcdef0123456789abcdef0123456789abcdef0123456789abcdef0123456789abcdef'' 7)) =
             calls one_client @ [CallGetTransaction first_client (ChangePubKeyReq bs) \<lparr>Nonce = Some 7\<rparr>])"
  by (simp add: one_client_eq SignTransfer_def SignChangePubKey_def transaction_def called_def
        new_TransactOpts_def hexutil_Decode_def has0xPrefix_def fromHexChar_def Let_def)



text \<open>
  Claim C7. In every state reached from the initial one by any sequence of calls of the
  public functions (\<open>CreateClient\<close> and \<open>SwitchAPIKey\<close> among them, successful or not),
  an active session, if there is one, is a session the slot mapping holds at that moment.
  Sessions are compared as pointers (\<open>addr\<close>), so a session that was replaced in the
  mapping is not one the mapping holds. This holds for both bindings.
\<close>

theorem active_session_registered:
  "(txClient (mobile_run E start ops) = Some c \<longrightarrow>
      (\<exists>slot. map_index (backupTxClients (mobile_run E start ops)) slot = Some c))
   \<and> (txClient (js_run E start jops) = Some jc \<longrightarrow>
      (\<exists>slot. map_index (backupTxClients (js_run E start jops)) slot = Some jc))"
  using mobile_run_ok [OF start_ok, of E ops] js_run_ok [OF start_ok, of E jops]
  by (auto simp: registry_ok_def dest!: registered_map_index)

theorem active_session_registered_witness:
  "txClient (mobile_run sound_engine start
       [(0, DoCreateClient ''https://host'' ''0x01'' 304 0 1), (1, DoSwitchAPIKey 0),
        (2, DoSign (Withdraw 10 (- 1)))]) = Some first_client
   \<and> (\<exists>slot. map_index (backupTxClients (mobile_run sound_engine start
       [(0, DoCreateClient ''https://host'' ''0x01'' 304 0 1), (1, DoSwitchAPIKey 0),
        (2, DoSign (Withdraw 10 (- 1)))])) slot = Some first_client)
   \<and> txClient (js_run sound_engine start
       [(0, JsCreateClient [JSString ''https://host'', JSString ''0x01'', JSNumber 304, JSNumber 0,
                            JSNumber 1])]) = Some first_client
   \<and> (\<exists>slot. map_index (backupTxClients (js_run sound_engine start
       [(0, JsCreateClient [JSString ''https://host'', JSString ''0x01'', JSNumber 304, JSNumber 0,
                            JSNumber 1])])) slot = Some first_client)"
proof -
  have a: "txClient (mobile_run sound_engine start
       [(0, DoCreateClient ''https://host'' ''0x01'' 304 0 1), (1, DoSwitchAPIKey 0),
        (2, DoSign (Withdraw 10 (- 1)))]) = Some first_client"
    using one_client_eq
    by (simp add: mobile_run_def one_client_def SwitchAPIKey_def SignWithdraw_def transaction_def
          called_def map_index_def Let_def)
  have b: "txClient (js_run sound_engine start
       [(0, JsCreateClient [JSString ''https://host'', JSString ''0x01'', JSNumber 304, JSNumber 0,
                            JSNumber 1])]) = Some first_client"
    using js_one_client_eq by (simp add: js_run_def js_one_client_def)
  from a b active_session_registered [where E = sound_engine and c = first_client and jc = first_client
      and ops = "[(0, DoCreateClient ''https://host'' ''0x01'' 304 0 1), (1, DoSwitchAPIKey 0),
        (2, DoSign (Withdraw 10 (- 1)))]"
      and jops = "[(0, JsCreateClient [JSString ''https://host'', JSString ''0x01'', JSNumber 304,
                            JSNumber 0, JSNumber 1])]"]
  show ?thesis by blast
qed

text \<open>
  Claim C8. With a session active, \<open>SignCreateOrder\<close> hands the engine the expiry
  \<open>now + 28 days\<close> in milliseconds (2419200000 ms after the clock's reading at the call)
  when \<open>orderExpiry\<close> is -1 and the caller's value otherwise; \<open>CreateAuthToken\<close> hands
  the engine the deadline \<open>now + 7 hours\<close> in seconds (25200 s after the reading at the
  call) when \<open>deadline\<close> is 0 and the caller's value otherwise. The same holds for
  \<open>signCreateOrder\<close> and \<open>createAuthToken\<close> of the WebAssembly build.
\<close>

theorem expiry_and_deadline_defaults:
  assumes "txClient w = Some c" and "txClient jw = Some jc"
  shows "(\<exists>txInfo.
            calls (snd (SignCreateOrder E now w marketIndex clientOrderIndex baseAmount price isAsk
                          orderType timeInForce reduceOnly triggerPrice orderExpiry nonce)) =
              calls w @ [CallGetTransaction c (CreateOrderReq txInfo) (new_TransactOpts nonce)]
          \<and> OrderExpiry txInfo =
              (if orderExpiry = - 1 then UnixMilli now + 2419200000 else orderExpiry))
       \<and> calls (snd (CreateAuthToken E now w deadline)) =
            calls w @ [CallGetAuthToken c (if deadline = 0 then Unix now + 25200 else deadline)]
       \<and> (11 \<le> length args \<and> js_Ints args [0, 1, 2, 3, 4, 5, 6, 7, 8, 9, 10] = Some ns \<longrightarrow>
            (\<exists>txInfo.
               calls (snd (signCreateOrder E now jw args)) =
                 calls jw @ [CallGetTransaction jc (CreateOrderReq txInfo) (new_TransactOpts (ns ! 10))]
             \<and> OrderExpiry txInfo = (if ns ! 9 = - 1 then UnixMilli now + 2419200000 else ns ! 9)))
       \<and> (1 \<le> length targs \<and> js_Int (targs ! 0) = Some jdeadline \<longrightarrow>
            calls (snd (createAuthToken E now jw targs)) =
              calls jw @ [CallGetAuthToken jc (if jdeadline = 0 then Unix now + 25200 else jdeadline)])"
  using SignCreateOrder_expiry [OF assms(1), of E now marketIndex clientOrderIndex baseAmount price
          isAsk orderType timeInForce reduceOnly triggerPrice orderExpiry nonce]
    CreateAuthToken_deadline [OF assms(1), of E now deadline]
    signCreateOrder_expiry [OF assms(2), of args ns E now]
    createAuthToken_deadline [OF assms(2), of targs jdeadline E now]
  by blast

theorem expiry_and_deadline_defaults_witness:
  "txClient one_client = Some first_client \<and> txClient js_one_client = Some first_client
   \<and> (\<exists>txInfo.
         calls (snd (SignCreateOrder sound_engine 1700000000000000000 one_client 0 1 100 2500 0 0 0 0 0
                       (- 1) (- 1))) =
           calls one_client @ [CallGetTransaction first_client (CreateOrderReq txInfo) \<lparr>Nonce = None\<rparr>]
       \<and> OrderExpiry txInfo = 1702419200000)
   \<and> (\<exists>txInfo.
         calls (snd (SignCreateOrder sound_engine 1700000000000000000 one_client 0 1 100 2500 0 0 0 0 0
                       1700000000000 (- 1))) =
           calls one_client @ [CallGetTransaction first_client (CreateOrderReq txInfo) \<lparr>Nonce = None\<rparr>]
       \<and> OrderExpiry txInfo = 1700000000000)
   \<and> calls (snd (CreateAuthToken sound_engine 1700000000000000000 one_client 0)) =
        calls one_client @ [CallGetAuthToken first_client 1700025200]
   \<and> calls (snd (CreateAuthToken sound_engine 1700000000000000000 one_client 1700003600)) =
        calls one_client @ [CallGetAuthToken first_client 1700003600]
   \<and> 1 \<le> length [JSNumber 0] \<and> js_Int ([JSNumber 0] ! 0) = Some 0
   \<and> calls (snd (createAuthToken sound_engine 1700000000000000000 js_one_client [JSNumber 0])) =
        calls js_one_client @ [CallGetAuthToken first_client 1700025200]"
proof -
  have a: "txClient one_client = Some first_client" and b: "txClient js_one_client = Some first_client"
    by (simp_all add: one_client_eq js_one_client_eq)
  have i: "js_Int ([JSNumber 0] ! 0) = Some 0"
    by (simp add: js_Int_def)
  note t = expiry_and_deadline_defaults [OF a b, where E = sound_engine and now = 1700000000000000000
      and marketIndex = 0 and clientOrderIndex = 1 and baseAmount = 100 and price = 2500 and isAsk = 0
      and orderType = 0 and timeInForce = 0 and reduceOnly = 0 and triggerPrice = 0 and nonce = "- 1"
      and targs = "[JSNumber 0]" and jdeadline = 0]
  from t [where orderExpiry = "- 1" and deadline = 0]
       t [where orderExpiry = 1700000000000 and deadline = 1700003600] a b i
  show ?thesis
    by (simp add: new_TransactOpts_def UnixMilli_def Unix_def)
qed

text \<open>
  Claim C9, as stated: \<open>CheckClient\<close> succeeds exactly when the registered key and the
  session's key are equal as bytes after hex-decoding. It does not: the function compares
  the registered key, as the text the lookup returned, with the lower-case hexadecimal
  text of the session's key. A registered key written \<open>AB\<close> decodes to the session's key
  \<open>[0xAB]\<close> and is rejected.
\<close>

theorem CheckClient_rejects_upper_case_key:
  "map_index (backupTxClients one_client) 0 = Some first_client
   \<and> apiKeyIndex first_client = 0 \<and> accountIndex first_client = 1
   \<and> GetApiKey upper_case_engine (calls one_client) first_client 1 0 =
        Value \<lparr>ApiKeys = [\<lparr>AccountIndex = 1, ApiKeyIndex = 0, KeyNonce = 0, PublicKey = ''AB''\<rparr>]\<rparr>
   \<and> PubKeyBytes first_client = [0xAB]
   \<and> same_key_bytes ''AB'' (PubKeyBytes first_client)
   \<and> fst (CheckClient upper_case_engine one_client 0 1) =
        ''private key does not match the one on Lighter. ownPubKey: ab response: ''
          @ show_ApiKey \<lparr>AccountIndex = 1, ApiKeyIndex = 0, KeyNonce = 0, PublicKey = ''AB''\<rparr>
   \<and> fst (CheckClient upper_case_engine one_client 0 1) \<noteq> ''''"
  by (simp add: one_client_eq CheckClient_def map_index_def upper_case_engine_def sound_engine_def
        first_client_def same_key_bytes_def fromHexChar_def hexutil_Encode_def hex_of_byte_AB Let_def)

text \<open>
  Claim C9, amended. When a session is registered under the slot, its slot and account
  index match the arguments, and the lookup answers with at least one key, \<open>CheckClient\<close>
  makes the lookup for that account and slot and compares the first key's \<open>PublicKey\<close>
  text with the lower-case hexadecimal text, without the 0x prefix, of the session's
  public key: it returns success exactly when the two texts are equal, and otherwise an
  error that names both. Success implies that the registered key hex-decodes to the
  session's key. The same holds for \<open>checkClient\<close> of the WebAssembly build.
\<close>

theorem CheckClient_compares_hex_text:
  assumes "map_index (backupTxClients w) slot = Some client"
    and "apiKeyIndex client = ucast slot" and "accountIndex client = account"
    and "GetApiKey E (calls w) client account (ucast slot) = Value key"
    and "ApiKeys key = ak # rest"
  shows "calls (snd (CheckClient E w slot account)) = calls w @ [CallGetApiKey client account (ucast slot)]
       \<and> (fst (CheckClient E w slot account) = ''''
            \<longleftrightarrow> PublicKey ak = concat (map hex_of_byte (PubKeyBytes client)))
       \<and> (PublicKey ak \<noteq> concat (map hex_of_byte (PubKeyBytes client)) \<longrightarrow>
            fst (CheckClient E w slot account) =
              ''private key does not match the one on Lighter. ownPubKey: ''
                @ concat (map hex_of_byte (PubKeyBytes client)) @ '' response: '' @ show_ApiKey ak)
       \<and> (fst (CheckClient E w slot account) = '''' \<longrightarrow> same_key_bytes (PublicKey ak) (PubKeyBytes client))
       \<and> (\<forall>jw args ns.
            2 \<le> length args \<and> js_Ints args [0, 1] = Some ns \<and> ucast (ns ! 0) = (ucast slot :: byte)
            \<and> ns ! 1 = account \<and> map_index (backupTxClients jw) (ucast slot) = Some client
            \<and> calls jw = calls w \<longrightarrow>
              (fst (checkClient E jw args) = Some js_ok
                 \<longleftrightarrow> PublicKey ak = concat (map hex_of_byte (PubKeyBytes client)))
            \<and> (PublicKey ak \<noteq> concat (map hex_of_byte (PubKeyBytes client)) \<longrightarrow>
                 fst (checkClient E jw args) =
                   Some (js_err (''private key does not match the one on Lighter. ownPubKey: ''
                     @ concat (map hex_of_byte (PubKeyBytes client)) @ '' response: ''
                     @ show_ApiKey ak))))"
proof -
  note m = CheckClient_compare [OF assms]
  have j: "\<And>jw args ns.
       2 \<le> length args \<Longrightarrow> js_Ints args [0, 1] = Some ns \<Longrightarrow> ucast (ns ! 0) = (ucast slot :: byte)
       \<Longrightarrow> ns ! 1 = account \<Longrightarrow> map_index (backupTxClients jw) (ucast slot) = Some client
       \<Longrightarrow> calls jw = calls w \<Longrightarrow>
       checkClient E jw args =
         (if PublicKey ak \<noteq> concat (map hex_of_byte (PubKeyBytes client))
          then Some (js_err (''private key does not match the one on Lighter. ownPubKey: ''
                 @ concat (map hex_of_byte (PubKeyBytes client)) @ '' response: '' @ show_ApiKey ak))
          else Some js_ok,
          called jw (CallGetApiKey client (ns ! 1) (ucast (ns ! 0))))"
    using assms by (intro checkClient_compare [where rest = rest and key = key]) simp_all
  have r: "PublicKey ak = concat (map hex_of_byte (PubKeyBytes client))
             \<Longrightarrow> same_key_bytes (PublicKey ak) (PubKeyBytes client)"
    by (simp add: same_key_bytes_def hex_round_trip)
  show ?thesis
  proof (intro conjI allI impI)
    show "calls (snd (CheckClient E w slot account)) =
            calls w @ [CallGetApiKey client account (ucast slot)]"
      by (simp add: m called_def)
    show "fst (CheckClient E w slot account) = ''''
            \<longleftrightarrow> PublicKey ak = concat (map hex_of_byte (PubKeyBytes client))"
      by (simp add: m)
    show "fst (CheckClient E w slot account) =
              ''private key does not match the one on Lighter. ownPubKey: ''
                @ concat (map hex_of_byte (PubKeyBytes client)) @ '' response: '' @ show_ApiKey ak"
      if "PublicKey ak \<noteq> concat (map hex_of_byte (PubKeyBytes client))"
      using that by (simp add: m)
    show "same_key_bytes (PublicKey ak) (PubKeyBytes client)"
      if "fst (CheckClient E w slot account) = ''''"
      using that r by (simp add: m split: if_splits)
  next
    fix jw :: "byte world" and args ns
    assume h: "2 \<le> length args \<and> js_Ints args [0, 1] = Some ns \<and> ucast (ns ! 0) = (ucast slot :: byte)
            \<and> ns ! 1 = account \<and> map_index (backupTxClients jw) (ucast slot) = Some client
            \<and> calls jw = calls w"
    then have e: "checkClient E jw args =
         (if PublicKey ak \<noteq> concat (map hex_of_byte (PubKeyBytes client))
          then Some (js_err (''private key does not match the one on Lighter. ownPubKey: ''
                 @ concat (map hex_of_byte (PubKeyBytes client)) @ '' response: '' @ show_ApiKey ak))
          else Some js_ok,
          called jw (CallGetApiKey client (ns ! 1) (ucast (ns ! 0))))"
      by (intro j) simp_all
    show "fst (checkClient E jw args) = Some js_ok
            \<longleftrightarrow> PublicKey ak = concat (map hex_of_byte (PubKeyBytes client))"
      by (simp add: e js_err_def js_ok_def)
    show "fst (checkClient E jw args) =
                   Some (js_err (''private key does not match the one on Lighter. ownPubKey: ''
                     @ concat (map hex_of_byte (PubKeyBytes client)) @ '' response: ''
                     @ show_ApiKey ak))"
      if "PublicKey ak \<noteq> concat (map hex_of_byte (PubKeyBytes client))"
      using that by (simp add: e)
  qed
qed

theorem CheckClient_compares_hex_text_witness:
  "map_index (backupTxClients one_client) 0 = Some first_client
   \<and> apiKeyIndex first_client = ucast (0 :: int64) \<and> accountIndex first_client = 1
   \<and> GetApiKey sound_engine (calls one_client) first_client 1 (ucast (0 :: int64)) =
        Value \<lparr>ApiKeys = [\<lparr>AccountIndex = 1, ApiKeyIndex = 0, KeyNonce = 0, PublicKey = ''ab''\<rparr>]\<rparr>
   \<and> concat (map hex_of_byte (PubKeyBytes first_client)) = ''ab''
   \<and> fst (CheckClient sound_engine one_client 0 1) = ''''
   \<and> calls (snd (CheckClient sound_engine one_client 0 1)) =
        calls one_client @ [CallGetApiKey first_client 1 0]
   \<and> same_key_bytes ''ab'' (PubKeyBytes first_client)"
proof -
  have a: "map_index (backupTxClients one_client) 0 = Some first_client"
    by (simp add: one_client_eq map_index_def)
  have b: "apiKeyIndex first_client = ucast (0 :: int64)" and c: "accountIndex first_client = 1"
    by (simp_all add: first_client_def)
  have d: "GetApiKey sound_engine (calls one_client) first_client 1 (ucast (0 :: int64)) =
        Value \<lparr>ApiKeys = [\<lparr>AccountIndex = 1, ApiKeyIndex = 0, KeyNonce = 0, PublicKey = ''ab''\<rparr>]\<rparr>"
    by (simp add: sound_engine_def)
  have e: "ApiKeys \<lparr>ApiKeys = [\<lparr>AccountIndex = 1, ApiKeyIndex = 0, KeyNonce = 0, PublicKey = ''ab''\<rparr>]\<rparr>
             = \<lparr>AccountIndex = 1, ApiKeyIndex = 0, KeyNonce = 0, PublicKey = ''ab''\<rparr> # []"
    by simp
  have f: "concat (map hex_of_byte (PubKeyBytes first_client)) = ''ab''"
    by (simp add: first_client_def hex_of_byte_AB)
  from CheckClient_compares_hex_text [OF a b c d e] a b c d f show ?thesis
    by simp
qed

text \<open>
  Claim C10, as stated: after \<open>CreateClient\<close> failed in the engine, every later builder
  returns the no-client error until another \<open>CreateClient\<close> succeeds. It does not: a
  successful \<open>SwitchAPIKey\<close> to a slot that is still registered makes a session active
  again. With slot 0 registered, \<open>CreateClient\<close> for slot 1 fails and clears \<open>txClient\<close>,
  \<open>SwitchAPIKey(0)\<close> succeeds, and \<open>SignCancelOrder\<close> then returns a document.
\<close>

theorem builders_resume_after_switch:
  "fst (CreateClient sound_engine one_client ''https://host'' '''' 304 1 1) =
      ''error occurred when creating TxClient. err: empty private key''
   \<and> txClient after_failed_open = None
   \<and> fst (SignCancelOrder sound_engine after_failed_open 0 0 (- 1)) = Some (failed no_client)
   \<and> fst (SwitchAPIKey after_failed_open 0) = ''''
   \<and> fst (SignCancelOrder sound_engine switched_back 0 0 (- 1)) =
        Some \<lparr>JSON = Json (JObject [(''Nonce'', JNumber 7), (''AccountIndex'', JNumber 1)]), Error = ''''\<rparr>"
  by (simp add: switched_back_def after_failed_open_def one_client_eq CreateClient_def
        SwitchAPIKey_def SignCancelOrder_def transaction_def marshalled_def called_def
        sound_engine_def signed_tx_def map_index_def Let_def)

text \<open>
  Claim C10, amended. When \<open>CreateClient\<close> is called with an account index above 0 and
  the engine refuses to construct the client, the function returns a non-empty error
  (the engine's message after a fixed prefix), the slot mapping is unchanged, and
  \<open>txClient\<close> is nil, whatever it was before; from then on, as long as no \<open>CreateClient\<close>
  and no \<open>SwitchAPIKey\<close> reports success, every builder returns the no-client error.
  The same holds for \<open>createClient\<close> of the WebAssembly build, whose error is the
  engine's message itself.
\<close>

theorem failed_open_clears_active:
  assumes "0 < sint account"
    and "NewTxClient E (calls w) url key account (ucast slot) (ucast chain) = Failure e"
    and "none_reopens E (snd (CreateClient E w url key chain slot account)) ops"
    and "5 \<le> length args" and "js_Ints args [2, 3, 4] = Some ns" and "0 < sint (ns ! 2)"
    and "NewTxClient E (calls jw) (js_String (args ! 0)) (js_String (args ! 1)) (ns ! 2)
           (ucast (ns ! 1)) (ucast (ns ! 0)) = Failure je"
    and "js_none_reopens E (snd (createClient E jw args)) jops"
  shows "fst (CreateClient E w url key chain slot account) =
           ''error occurred when creating TxClient. err: '' @ e
       \<and> fst (CreateClient E w url key chain slot account) \<noteq> ''''
       \<and> backupTxClients (snd (CreateClient E w url key chain slot account)) = backupTxClients w
       \<and> txClient (snd (CreateClient E w url key chain slot account)) = None
       \<and> Sign E now (mobile_run E (snd (CreateClient E w url key chain slot account)) ops) call =
           (Some (failed (not_created call)),
            mobile_run E (snd (CreateClient E w url key chain slot account)) ops)
       \<and> fst (createClient E jw args) = Some (js_err je)
       \<and> backupTxClients (snd (createClient E jw args)) = backupTxClients jw
       \<and> txClient (snd (createClient E jw args)) = None
       \<and> js_call E now (js_run E (snd (createClient E jw args)) jops) f fargs =
           (Some (js_err (js_not_created f)), js_run E (snd (createClient E jw args)) jops)"
proof -
  note m = CreateClient_failure [OF assms(1, 2)]
  have j: "createClient E jw args =
     (Some (js_err je),
      (called jw (CallNewTxClient (js_String (args ! 0)) (js_String (args ! 1)) (ns ! 2)
                    (ucast (ns ! 1)) (ucast (ns ! 0))))\<lparr>txClient := None\<rparr>)"
    using assms(4-7) by (simp add: createClient_def Let_def)
  have "txClient (snd (CreateClient E w url key chain slot account)) = None"
    by (simp add: m)
  from quiet_run [OF this assms(3)]
  have q: "txClient (mobile_run E (snd (CreateClient E w url key chain slot account)) ops) = None" .
  have "txClient (snd (createClient E jw args)) = None"
    by (simp add: j)
  from js_quiet_run [OF this assms(8)]
  have jq: "txClient (js_run E (snd (createClient E jw args)) jops) = None" .
  show ?thesis
    using Sign_no_client [OF q, of E now call] js_call_no_client [OF jq, of E now f fargs]
    by (simp add: m j called_def)
qed

theorem failed_open_clears_active_witness:
  "0 < sint (1 :: int64)
   \<and> NewTxClient sound_engine (calls one_client) ''https://host'' '''' 1 (ucast (1 :: int64))
        (ucast (304 :: int64)) = Failure ''empty private key''
   \<and> none_reopens sound_engine after_failed_open [(1, DoSwitchAPIKey 7), (2, DoSign (Withdraw 5 (- 1)))]
   \<and> txClient one_client = Some first_client
   \<and> fst (CreateClient sound_engine one_client ''https://host'' '''' 304 1 1) =
        ''error occurred when creating TxClient. err: empty private key''
   \<and> backupTxClients after_failed_open = backupTxClients one_client
   \<and> txClient after_failed_open = None
   \<and> fst (Sign sound_engine 3
             (mobile_run sound_engine after_failed_open
                [(1, DoSwitchAPIKey 7), (2, DoSign (Withdraw 5 (- 1)))])
             (CancelOrder 0 0 (- 1))) = Some (failed no_client)
   \<and> fst (createClient sound_engine js_one_client
             [JSString ''https://host'', JSString '''', JSNumber 304, JSNumber 1, JSNumber 1]) =
        Some (js_err ''empty private key'')
   \<and> txClient (snd (createClient sound_engine js_one_client
             [JSString ''https://host'', JSString '''', JSNumber 304, JSNumber 1, JSNumber 1])) = None"
proof -
  have a: "0 < sint (1 :: int64)" by simp
  have b: "NewTxClient sound_engine (calls one_client) ''https://host'' '''' 1 (ucast (1 :: int64))
        (ucast (304 :: int64)) = Failure ''empty private key''"
    by (simp add: sound_engine_def)
  have c: "none_reopens sound_engine (snd (CreateClient sound_engine one_client ''https://host'' '''' 304 1 1))
             [(1, DoSwitchAPIKey 7), (2, DoSign (Withdraw 5 (- 1)))]"
    by (simp add: one_client_eq CreateClient_def SwitchAPIKey_def SignWithdraw_def called_def
          sound_engine_def map_index_def Let_def)
  have d: "5 \<le> length [JSString ''https://host'', JSString '''', JSNumber 304, JSNumber 1, JSNumber 1]"
    by simp
  have e: "js_Ints [JSString ''https://host'', JSString '''', JSNumber 304, JSNumber 1, JSNumber 1]
             [2, 3, 4] = Some [304, 1, 1]"
    by (simp add: js_Ints_def js_Int_def)
  have f: "0 < sint ([304, 1, 1 :: int64] ! 2)" by simp
  have g: "NewTxClient sound_engine (calls js_one_client)
             (js_String ([JSString ''https://host'', JSString '''', JSNumber 304, JSNumber 1, JSNumber 1] ! 0))
             (js_String ([JSString ''https://host'', JSString '''', JSNumber 304, JSNumber 1, JSNumber 1] ! 1))
             ([304, 1, 1] ! 2) (ucast ([304, 1, 1 :: int64] ! 1)) (ucast ([304, 1, 1 :: int64] ! 0)) =
           Failure ''empty private key''"
    by (simp add: sound_engine_def js_String_def)
  have h: "js_none_reopens sound_engine
             (snd (createClient sound_engine js_one_client
                [JSString ''https://host'', JSString '''', JSNumber 304, JSNumber 1, JSNumber 1])) []"
    by simp
  have i: "txClient one_client = Some first_client"
    by (simp add: one_client_eq)
  from failed_open_clears_active [OF a b c d e f g h, where now = 3 and call = "CancelOrder 0 0 (- 1)"
      and f = JS_SignCancelOrder and fargs = "[]"] a b c i
  show ?thesis
    by (simp add: after_failed_open_def)
qed

end
